theory Spec2Isabelle
  imports Main "HOL-Library.Sublist"
begin

section \<open>The upload/analyze pipeline of \<^verbatim>\<open>app/routes/upload.tsx\<close>\<close>

text \<open>
  The route component \<^verbatim>\<open>upload\<close> holds one asynchronous handler, \<^verbatim>\<open>handleAnalyze\<close>,
  that drives a sequence of awaited calls to external collaborators (file upload,
  PDF conversion, key/value store, AI feedback, navigation) and keeps two pieces of
  UI state, \<^verbatim>\<open>isProcessing\<close> and \<^verbatim>\<open>statusText\<close>. The embedding below follows the
  handler statement by statement.
\<close>

subsection \<open>JavaScript values\<close>

text \<open>
  The values the handler inspects dynamically: the results of the collaborators, the
  AI response and the value returned by \<^verbatim>\<open>JSON.parse\<close>. An object is its list of
  own properties. Numbers are represented by integers: the handler only tests numbers
  for truthiness and for their \<^verbatim>\<open>typeof\<close>, and \<^verbatim>\<open>NaN\<close> behaves there as \<open>0\<close> does.
  A string is a list of characters, each standing for one code unit.
\<close>

datatype jsval =
    JUndefined
  | JNull
  | JBool bool
  | JNum int
  | JStr string
  | JArr "jsval list"
  | JObj "(string \<times> jsval) list"

text \<open>What a \<^verbatim>\<open>catch\<close> clause can receive: a \<^verbatim>\<open>TypeError\<close> raised by the engine itself,
  an \<^verbatim>\<open>Error\<close> instance with its message thrown by a collaborator, or any other value.\<close>

datatype exn = TypeError | ErrorObj string | NonError

text \<open>The result of a call that may throw (for an awaited call: reject).\<close>

datatype 'a outcome = Throws exn | Returns 'a

text \<open>JavaScript's \<^verbatim>\<open>ToBoolean\<close>: what \<^verbatim>\<open>!v\<close> and \<^verbatim>\<open>a || b\<close> test.\<close>

fun truthy :: "jsval \<Rightarrow> bool" where
  "truthy JUndefined = False"
| "truthy JNull = False"
| "truthy (JBool b) = b"
| "truthy (JNum n) = (n \<noteq> 0)"
| "truthy (JStr s) = (s \<noteq> [])"
| "truthy (JArr xs) = True"
| "truthy (JObj kvs) = True"

text \<open>
  Property read \<^verbatim>\<open>v.k\<close>. Reading a property of \<^verbatim>\<open>undefined\<close> or \<^verbatim>\<open>null\<close> throws a
  \<^verbatim>\<open>TypeError\<close>; an object yields the property or \<^verbatim>\<open>undefined\<close>; for the property
  names the handler reads (\<^verbatim>\<open>path\<close>, \<^verbatim>\<open>file\<close>, \<^verbatim>\<open>message\<close>, \<^verbatim>\<open>content\<close>, \<^verbatim>\<open>type\<close>,
  \<^verbatim>\<open>text\<close>, \<^verbatim>\<open>overallScore\<close>, \<^verbatim>\<open>ATS\<close>) every primitive and every array yields
  \<^verbatim>\<open>undefined\<close>.
\<close>

fun get_prop :: "jsval \<Rightarrow> string \<Rightarrow> exn + jsval" where
  "get_prop JUndefined k = Inl TypeError"
| "get_prop JNull k = Inl TypeError"
| "get_prop (JObj kvs) k = Inr (case map_of kvs k of None \<Rightarrow> JUndefined | Some v \<Rightarrow> v)"
| "get_prop v k = Inr JUndefined"

text \<open>Optional chaining \<^verbatim>\<open>v?.k\<close>: \<^verbatim>\<open>undefined\<close> when \<^verbatim>\<open>v\<close> is \<^verbatim>\<open>undefined\<close> or \<^verbatim>\<open>null\<close>.\<close>

fun opt_prop :: "jsval \<Rightarrow> string \<Rightarrow> jsval" where
  "opt_prop (JObj kvs) k = (case map_of kvs k of None \<Rightarrow> JUndefined | Some v \<Rightarrow> v)"
| "opt_prop v k = JUndefined"

text \<open>\<^verbatim>\<open>a || b\<close> on values.\<close>

definition js_or :: "jsval \<Rightarrow> jsval \<Rightarrow> jsval" where
  "js_or a b = (if truthy a then a else b)"

subsection \<open>Extracting the text of the AI response (lines 77--83)\<close>

text \<open>
  \<^verbatim>\<open>content.find((item: any) => item.type === 'text' || item.text)\<close>: the first item
  on which the callback is truthy, \<^verbatim>\<open>undefined\<close> when there is none. The callback
  throws on an item that is \<^verbatim>\<open>undefined\<close> or \<^verbatim>\<open>null\<close>.
\<close>

fun find_text :: "jsval list \<Rightarrow> exn + jsval" where
  "find_text [] = Inr JUndefined"
| "find_text (item # rest) =
     (case get_prop item ''type'' of
        Inl e \<Rightarrow> Inl e
      | Inr t \<Rightarrow>
          if t = JStr ''text'' then Inr item
          else (case get_prop item ''text'' of
                  Inl e \<Rightarrow> Inl e
                | Inr x \<Rightarrow> if truthy x then Inr item else find_text rest))"

text \<open>
  \<^verbatim>\<open>
  let feedbackText = ''
  if (typeof feedback.message.content === 'string') {
      feedbackText = feedback.message.content
  } else if (Array.isArray(feedback.message.content)) {
      const textContent = feedback.message.content.find(...)
      feedbackText = textContent?.text || textContent?.content || ''
  }
  \<close>
\<close>

definition typeof_string :: "jsval \<Rightarrow> bool" where
  "typeof_string v = (case v of JStr s \<Rightarrow> True | _ \<Rightarrow> False)"

definition isArray :: "jsval \<Rightarrow> bool" where
  "isArray v = (case v of JArr xs \<Rightarrow> True | _ \<Rightarrow> False)"

fun elements :: "jsval \<Rightarrow> jsval list" where
  "elements (JArr xs) = xs"
| "elements v = []"

definition extract_feedbackText :: "jsval \<Rightarrow> exn + jsval" where
  "extract_feedbackText response =
     (case get_prop response ''message'' of
        Inl e \<Rightarrow> Inl e
      | Inr message \<Rightarrow>
          (case get_prop message ''content'' of
             Inl e \<Rightarrow> Inl e
           | Inr content \<Rightarrow>
               if typeof_string content then Inr content
               else if isArray content then
                 (case find_text (elements content) of
                    Inl e \<Rightarrow> Inl e
                  | Inr textContent \<Rightarrow>
                      Inr (js_or (opt_prop textContent ''text'')
                             (js_or (opt_prop textContent ''content'') (JStr []))))
               else Inr (JStr [])))"

subsection \<open>Removing the Markdown fences (line 92)\<close>

text \<open>The optional \<^verbatim>\<open>\n?\<close> at the end of both regular expressions: greedy, so a
  line feed that follows the marker is consumed.\<close>

fun drop_newline :: "string \<Rightarrow> string" where
  "drop_newline [] = []"
| "drop_newline (c # cs) = (if c = CHR 0x0A then cs else c # cs)"

text \<open>
  \<^verbatim>\<open>s.replace(/m\n?/g, '')\<close> for a non-empty literal marker \<open>m\<close>: scanning from the left, a match
  at the current position is deleted and the scan resumes behind it; otherwise the
  character is kept and the scan moves on by one.
\<close>

function strip_marker :: "string \<Rightarrow> string \<Rightarrow> string" where
  "strip_marker m [] = []"
| "strip_marker m (c # cs) =
     (if take (length m) (c # cs) = m
      then strip_marker m (drop_newline (drop (length m - 1) cs))
      else c # strip_marker m cs)"
  by pat_completeness auto

termination strip_marker
proof (relation "measure (\<lambda>(m, s). length s)")
  show "wf (measure (\<lambda>(m, s). length s))" by simp
next
  fix m :: string and c :: char and cs :: string
  have "length (drop_newline xs) \<le> length xs" for xs
    by (cases xs) auto
  then have "length (drop_newline (drop (length m - 1) cs)) \<le> length (drop (length m - 1) cs)" .
  then show "((m, drop_newline (drop (length m - 1) cs)), (m, c # cs))
               \<in> measure (\<lambda>(m, s). length s)"
    by simp
next
  fix m :: string and c :: char and cs :: string
  show "((m, cs), (m, c # cs)) \<in> measure (\<lambda>(m, s). length s)" by simp
qed

text \<open>The characters \<^verbatim>\<open>String.prototype.trim\<close> removes, among the code units below 256:
  tab, line feed, vertical tab, form feed, carriage return, space, no-break space.\<close>

definition is_space :: "char \<Rightarrow> bool" where
  "is_space c = (c \<in> set [CHR 0x09, CHR 0x0A, CHR 0x0B, CHR 0x0C, CHR 0x0D, CHR 0x20, CHR 0xA0])"

definition trim :: "string \<Rightarrow> string" where
  "trim s = rev (dropWhile is_space (rev (dropWhile is_space s)))"

text \<open>
  \<^verbatim>\<open>feedbackText.replace(/```json\n?/g, '').replace(/```\n?/g, '').trim()\<close>
\<close>

definition clean_feedbackText :: "string \<Rightarrow> string" where
  "clean_feedbackText s = trim (strip_marker ''```'' (strip_marker ''```json'' s))"

text \<open>
  A text seen as plain pieces and fence markers. A marker is three backticks,
  tagged with \<^verbatim>\<open>json\<close> or not, with or without a line feed behind it that belongs
  to it. \<open>render\<close> is the text itself and \<open>plain_text\<close> the text with every marker,
  and the line feed that belongs to it, taken out. \<open>fenced\<close> says that the pieces
  are what they are called: a plain piece has no backtick; a marker without line
  feed is not followed by one; an untagged marker without line feed is followed
  neither by \<^verbatim>\<open>json\<close> nor by a tagged marker.
\<close>

datatype piece = Plain string | Fence bool bool

fun render :: "piece list \<Rightarrow> string" where
  "render [] = []"
| "render (Plain p # ps) = p @ render ps"
| "render (Fence tagged nl # ps) =
     ''```'' @ (if tagged then ''json'' else []) @ (if nl then [CHR 0x0A] else []) @ render ps"

fun plain_text :: "piece list \<Rightarrow> string" where
  "plain_text [] = []"
| "plain_text (Plain p # ps) = p @ plain_text ps"
| "plain_text (Fence tagged nl # ps) = plain_text ps"

fun fenced :: "piece list \<Rightarrow> bool" where
  "fenced [] = True"
| "fenced (Plain p # ps) = (CHR 0x60 \<notin> set p \<and> fenced ps)"
| "fenced (Fence tagged nl # ps) =
     (fenced ps
      \<and> (\<not> nl \<longrightarrow> \<not> prefix [CHR 0x0A] (render ps))
      \<and> (\<not> tagged \<and> \<not> nl \<longrightarrow>
           \<not> prefix ''json'' (render ps) \<and> \<not> prefix ''```json'' (render ps)))"

text \<open>The pieces with the tagged markers taken out.\<close>

fun untagged :: "piece list \<Rightarrow> piece list" where
  "untagged [] = []"
| "untagged (Plain p # ps) = Plain p # untagged ps"
| "untagged (Fence tagged nl # ps) =
     (if tagged then untagged ps else Fence tagged nl # untagged ps)"

text \<open>Whether the marker \<open>m\<close> occurs in a text, at any position.\<close>

fun occurs :: "string \<Rightarrow> string \<Rightarrow> bool" where
  "occurs m [] = (m = [])"
| "occurs m (c # cs) = (take (length m) (c # cs) = m \<or> occurs m cs)"

subsection \<open>The record, the collaborators and the state\<close>

text \<open>The object \<^verbatim>\<open>data\<close> of lines 51--59; the field \<^verbatim>\<open>id\<close> is \<open>id_field\<close> here.\<close>

record resume_data =
  id_field :: string
  resumePath :: jsval
  imagePath :: jsval
  companyName :: string
  jobTitle :: string
  jobDescription :: string
  feedback :: jsval

text \<open>The destructured parameter of \<^verbatim>\<open>handleAnalyze\<close>.\<close>

record analyze_args =
  companyName_arg :: string
  jobTitle_arg :: string
  jobDescription_arg :: string
  file_arg :: jsval

text \<open>
  The collaborators are not part of this file of the repository; the handler is
  verified for every behaviour they may show. Each is a function of the arguments it
  is given; \<^verbatim>\<open>fs.upload\<close> and \<^verbatim>\<open>kv.set\<close>, which the handler calls twice, also get
  the number of the call (0 or 1), so that the second answer need not agree with the
  first. \<open>JSON_parse\<close> yields \<open>None\<close> where \<^verbatim>\<open>JSON.parse\<close> throws.
  \<open>type_error_message\<close> is the engine's message text of a \<^verbatim>\<open>TypeError\<close>.
\<close>

record env =
  fs_upload :: "nat \<Rightarrow> jsval list \<Rightarrow> jsval outcome"
  convertPdfToImage :: "jsval \<Rightarrow> jsval outcome"
  generateUUID :: "string outcome"
  kv_set :: "nat \<Rightarrow> string \<Rightarrow> resume_data \<Rightarrow> jsval outcome"
  prepareInstructions :: "string \<Rightarrow> string \<Rightarrow> string outcome"
  ai_feedback :: "jsval \<Rightarrow> string \<Rightarrow> jsval outcome"
  JSON_parse :: "string \<Rightarrow> jsval option"
  navigate :: "string \<Rightarrow> unit outcome"
  type_error_message :: string

text \<open>An external call as the handler made it: its arguments and what came back.
  For \<open>KvSet\<close> the value sent is \<^verbatim>\<open>JSON.stringify\<close> of the record shown.\<close>

datatype call =
    FsUpload "jsval list" "jsval outcome"
  | ConvertPdfToImage jsval "jsval outcome"
  | KvSet string resume_data "jsval outcome"
  | AiFeedback jsval string "jsval outcome"
  | Navigate string "unit outcome"

text \<open>
  The state the handler acts on: the two \<^verbatim>\<open>useState\<close> cells, the contents of the
  key/value store (a \<^verbatim>\<open>kv.set\<close> that returns has stored its value; the entry holds
  the record that was serialised), and two logs kept for the statements below: the
  external calls made, oldest first, and the texts handed to \<^verbatim>\<open>JSON.parse\<close>.
\<close>

record state =
  isProcessing :: bool
  statusText :: string
  kv :: "string \<Rightarrow> resume_data option"
  calls :: "call list"
  parsed :: "string list"

subsection \<open>Statements: state, early \<^verbatim>\<open>return\<close> and \<^verbatim>\<open>throw\<close>\<close>

text \<open>The two ways the \<^verbatim>\<open>try\<close> block is left before its last statement.\<close>

datatype abrupt = Return | Throw exn

type_synonym 'a proc = "state \<Rightarrow> (abrupt + 'a) \<times> state"

definition unitP :: "'a \<Rightarrow> 'a proc" where
  "unitP x s = (Inr x, s)"

definition bindP :: "'a proc \<Rightarrow> ('a \<Rightarrow> 'b proc) \<Rightarrow> 'b proc" where
  "bindP m f s = (case m s of (Inl ab, s') \<Rightarrow> (Inl ab, s') | (Inr x, s') \<Rightarrow> f x s')"

definition thenP :: "'a proc \<Rightarrow> 'b proc \<Rightarrow> 'b proc" where
  "thenP m k = bindP m (\<lambda>_. k)"

text \<open>\<^verbatim>\<open>return m\<close>: run \<open>m\<close>, then leave the function.\<close>

definition returnP :: "unit proc \<Rightarrow> 'a proc" where
  "returnP m = bindP m (\<lambda>_ s. (Inl Return, s))"

text \<open>An expression that may throw.\<close>

definition liftE :: "exn + 'a \<Rightarrow> 'a proc" where
  "liftE r s = (case r of Inl e \<Rightarrow> (Inl (Throw e), s) | Inr x \<Rightarrow> (Inr x, s))"

definition liftO :: "'a outcome \<Rightarrow> 'a proc" where
  "liftO r s = (case r of Throws e \<Rightarrow> (Inl (Throw e), s) | Returns x \<Rightarrow> (Inr x, s))"

definition setIsProcessing :: "bool \<Rightarrow> unit proc" where
  "setIsProcessing b s = (Inr (), s\<lparr>isProcessing := b\<rparr>)"

definition setStatusText :: "string \<Rightarrow> unit proc" where
  "setStatusText t s = (Inr (), s\<lparr>statusText := t\<rparr>)"

text \<open>An awaited external call: logged with its outcome, then returning or throwing.\<close>

definition external :: "('a outcome \<Rightarrow> call) \<Rightarrow> 'a outcome \<Rightarrow> 'a proc" where
  "external c r s = liftO r (s\<lparr>calls := calls s @ [c r]\<rparr>)"

definition kv_set_call :: "env \<Rightarrow> nat \<Rightarrow> string \<Rightarrow> resume_data \<Rightarrow> jsval proc" where
  "kv_set_call e n key d s =
     (let r = kv_set e n key d;
          s' = s\<lparr>calls := calls s @ [KvSet key d r]\<rparr>
      in case r of
           Throws x \<Rightarrow> (Inl (Throw x), s')
         | Returns v \<Rightarrow> (Inr v, s'\<lparr>kv := (kv s)(key \<mapsto> d)\<rparr>))"

text \<open>\<^verbatim>\<open>try { parsedFeedback = JSON.parse(feedbackText) } catch (parseError) ...\<close>:
  the text is logged; the inner \<^verbatim>\<open>catch\<close> sees \<open>None\<close>.\<close>

definition JSON_parse_call :: "env \<Rightarrow> string \<Rightarrow> jsval option proc" where
  "JSON_parse_call e t s = (Inr (JSON_parse e t), s\<lparr>parsed := parsed s @ [t]\<rparr>)"

text \<open>The pattern of every checked failure:
  \<^verbatim>\<open>setIsProcessing(false); return setStatusText(msg)\<close>.\<close>

definition stop_with :: "string \<Rightarrow> 'a proc" where
  "stop_with msg = thenP (setIsProcessing False) (returnP (setStatusText msg))"

subsection \<open>The handler\<close>

text \<open>Lines 106--120: validation of the parsed value, second write, navigation.\<close>

definition validate_and_store :: "env \<Rightarrow> string \<Rightarrow> resume_data \<Rightarrow> jsval \<Rightarrow> unit proc" where
  "validate_and_store e uuid data parsedFeedback =
     bindP (liftE (get_prop parsedFeedback ''overallScore'')) (\<lambda>overallScore.
     bindP (if \<not> truthy overallScore then unitP True
            else bindP (liftE (get_prop parsedFeedback ''ATS'')) (\<lambda>ATS. unitP (\<not> truthy ATS)))
       (\<lambda>invalid.
     if invalid then stop_with ''Invalid feedback format from AI. Please try again.''
     else
       thenP (kv_set_call e 1 (''resume:'' @ uuid) (data\<lparr>feedback := parsedFeedback\<rparr>)) (
       thenP (setStatusText ''Analysis Complete! Redirecting...'') (
       external (Navigate (''/resume/'' @ uuid)) (navigate e (''/resume/'' @ uuid))))))"

text \<open>Lines 69--104: the checks on the AI response, text extraction, cleaning and
  parsing. \<^verbatim>\<open>feedbackText.replace\<close> is a method only when the extracted value is a
  string; on any other truthy value the call throws a \<^verbatim>\<open>TypeError\<close>.\<close>

definition analyze_response :: "env \<Rightarrow> string \<Rightarrow> resume_data \<Rightarrow> jsval \<Rightarrow> unit proc" where
  "analyze_response e uuid data response =
     (if \<not> truthy response then stop_with ''Failed to analyze resume. Please try again.''
      else
        bindP (liftE (extract_feedbackText response)) (\<lambda>feedbackText.
        if \<not> truthy feedbackText then stop_with ''Invalid AI response format. Please try again.''
        else
          bindP (liftE (case feedbackText of
                          JStr t \<Rightarrow> Inr (clean_feedbackText t)
                        | _ \<Rightarrow> Inl TypeError)) (\<lambda>cleaned.
          bindP (JSON_parse_call e cleaned) (\<lambda>result.
          case result of
            None \<Rightarrow> stop_with ''Failed to parse AI response. Please try again.''
          | Some parsedFeedback \<Rightarrow> validate_and_store e uuid data parsedFeedback))))"

text \<open>Lines 48--67: the record is built and written for the first time, then the
  AI is asked; \<open>uploadedFile\<close> and \<open>uploadedImage\<close> are the results of the two
  uploads.\<close>

definition persist_and_analyze :: "env \<Rightarrow> analyze_args \<Rightarrow> jsval \<Rightarrow> jsval \<Rightarrow> unit proc" where
  "persist_and_analyze e a uploadedFile uploadedImage =
     thenP (setStatusText ''perparing Data ...'') (
     bindP (liftO (generateUUID e)) (\<lambda>uuid.
     bindP (liftE (get_prop uploadedFile ''path'')) (\<lambda>uploadedFile_path.
     bindP (liftE (get_prop uploadedImage ''path'')) (\<lambda>uploadedImage_path.
     let data = \<lparr>id_field = uuid,
                 resumePath = uploadedFile_path,
                 imagePath = uploadedImage_path,
                 companyName = companyName_arg a,
                 jobTitle = jobTitle_arg a,
                 jobDescription = jobDescription_arg a,
                 feedback = JStr []\<rparr>
     in
       thenP (kv_set_call e 0 (''resume:'' @ uuid) data) (
       thenP (setStatusText ''Analyzing ...'') (
       bindP (liftO (prepareInstructions e (jobTitle_arg a) (jobDescription_arg a))) (\<lambda>instructions.
       bindP (external (AiFeedback uploadedFile_path instructions)
                (ai_feedback e uploadedFile_path instructions)) (\<lambda>response.
       analyze_response e uuid data response))))))))"

text \<open>Lines 25--46: the body of the \<^verbatim>\<open>try\<close> block, from its first statement through
  the two uploads; the rest of the block is the three parts above.\<close>

definition handleAnalyze_try :: "env \<Rightarrow> analyze_args \<Rightarrow> unit proc" where
  "handleAnalyze_try e a =
     thenP (setIsProcessing True) (
     thenP (setStatusText ''Uploading Resume...'') (
     bindP (external (FsUpload [file_arg a]) (fs_upload e 0 [file_arg a])) (\<lambda>uploadedFile.
     if \<not> truthy uploadedFile then stop_with ''Failed to upload file. Please try again.''
     else
       thenP (setStatusText ''Converting to Image...'') (
       bindP (external (ConvertPdfToImage (file_arg a)) (convertPdfToImage e (file_arg a))) (\<lambda>ImageFile.
       bindP (liftE (get_prop ImageFile ''file'')) (\<lambda>ImageFile_file.
       if \<not> truthy ImageFile_file then stop_with ''Failed to convert file to image.''
       else
         thenP (setStatusText ''Uploading the Image'') (
         bindP (external (FsUpload [ImageFile_file]) (fs_upload e 1 [ImageFile_file])) (\<lambda>uploadedImage.
         if \<not> truthy uploadedImage then stop_with ''Failed to upload File. Please try again.''
         else persist_and_analyze e a uploadedFile uploadedImage))))))))"

text \<open>
  \<^verbatim>\<open>
  } catch (err) {
      setIsProcessing(false)
      setStatusText(`Error: ${err instanceof Error ? err.message : 'Unknown error occurred'}`)
  }
  \<close>
\<close>

definition error_text :: "env \<Rightarrow> exn \<Rightarrow> string" where
  "error_text e err =
     ''Error: '' @ (case err of
                      TypeError \<Rightarrow> type_error_message e
                    | ErrorObj msg \<Rightarrow> msg
                    | NonError \<Rightarrow> ''Unknown error occurred'')"

text \<open>\<^verbatim>\<open>try { ... } catch (err) { ... }\<close>: an exception thrown by the block is handed to
  the handler clause, whose own completion is the completion of the whole
  statement; an early \<^verbatim>\<open>return\<close> and the normal end pass through.\<close>

definition catchP :: "unit proc \<Rightarrow> (exn \<Rightarrow> unit proc) \<Rightarrow> unit proc" where
  "catchP body handler s =
     (case body s of
        (Inl (Throw err), s') \<Rightarrow> handler err s'
      | (Inl Return, s') \<Rightarrow> (Inl Return, s')
      | (Inr u, s') \<Rightarrow> (Inr u, s'))"

text \<open>The whole handler. A result \<open>Inl (Throw x)\<close> is an exception that leaves
  \<^verbatim>\<open>handleAnalyze\<close> itself (its promise rejects with \<open>x\<close>).\<close>

definition handleAnalyze :: "env \<Rightarrow> analyze_args \<Rightarrow> unit proc" where
  "handleAnalyze e a =
     catchP (handleAnalyze_try e a)
       (\<lambda>err. thenP (setIsProcessing False) (setStatusText (error_text e err)))"

subsection \<open>The steps and their failures\<close>

text \<open>
  The pipeline has ten steps: 1 upload the file, 2 convert it to an image, 3 upload
  the image, 4 build the record and write it, 5 ask the AI, 6 extract the text of
  the answer, 7 strip the fences, 8 parse, 9 validate, 10 attach the feedback,
  write again and navigate. The functions below say, from the answers of the
  collaborators alone and without any reference to what the handler does with its
  state, which step is the first to fail and how: by a result that fails the check
  made on it (\<open>Invalid\<close>: steps 1, 2, 3, 5, 6, 8, 9) or by an exception
  (\<open>Thrown\<close>). \<open>None\<close> means that every step succeeds.
\<close>

datatype failure_kind = Invalid | Thrown exn

type_synonym failure = "nat \<times> failure_kind"

definition validation_failure :: "env \<Rightarrow> string \<Rightarrow> resume_data \<Rightarrow> jsval \<Rightarrow> failure option" where
  "validation_failure e uuid data parsedFeedback =
     (case get_prop parsedFeedback ''overallScore'' of
        Inl x \<Rightarrow> Some (9, Thrown x)
      | Inr overallScore \<Rightarrow>
          if \<not> truthy overallScore then Some (9, Invalid)
          else
            (case get_prop parsedFeedback ''ATS'' of
               Inl x \<Rightarrow> Some (9, Thrown x)
             | Inr ATS \<Rightarrow>
                 if \<not> truthy ATS then Some (9, Invalid)
                 else
                   (case kv_set e 1 (''resume:'' @ uuid) (data\<lparr>feedback := parsedFeedback\<rparr>) of
                      Throws x \<Rightarrow> Some (10, Thrown x)
                    | Returns v \<Rightarrow>
                        (case navigate e (''/resume/'' @ uuid) of
                           Throws x \<Rightarrow> Some (10, Thrown x)
                         | Returns u \<Rightarrow> None))))"

definition response_failure :: "env \<Rightarrow> string \<Rightarrow> resume_data \<Rightarrow> jsval \<Rightarrow> failure option" where
  "response_failure e uuid data response =
     (if \<not> truthy response then Some (5, Invalid)
      else
        (case extract_feedbackText response of
           Inl x \<Rightarrow> Some (6, Thrown x)
         | Inr feedbackText \<Rightarrow>
             if \<not> truthy feedbackText then Some (6, Invalid)
             else
               (case feedbackText of
                  JStr t \<Rightarrow>
                    (case JSON_parse e (clean_feedbackText t) of
                       None \<Rightarrow> Some (8, Invalid)
                     | Some parsedFeedback \<Rightarrow> validation_failure e uuid data parsedFeedback)
                | _ \<Rightarrow> Some (7, Thrown TypeError))))"

definition persist_failure :: "env \<Rightarrow> analyze_args \<Rightarrow> jsval \<Rightarrow> jsval \<Rightarrow> failure option" where
  "persist_failure e a uploadedFile uploadedImage =
     (case generateUUID e of
        Throws x \<Rightarrow> Some (4, Thrown x)
      | Returns uuid \<Rightarrow>
          (case get_prop uploadedFile ''path'' of
             Inl x \<Rightarrow> Some (4, Thrown x)
           | Inr uploadedFile_path \<Rightarrow>
               (case get_prop uploadedImage ''path'' of
                  Inl x \<Rightarrow> Some (4, Thrown x)
                | Inr uploadedImage_path \<Rightarrow>
                    let data = \<lparr>id_field = uuid,
                                resumePath = uploadedFile_path,
                                imagePath = uploadedImage_path,
                                companyName = companyName_arg a,
                                jobTitle = jobTitle_arg a,
                                jobDescription = jobDescription_arg a,
                                feedback = JStr []\<rparr>
                    in
                      (case kv_set e 0 (''resume:'' @ uuid) data of
                         Throws x \<Rightarrow> Some (4, Thrown x)
                       | Returns v \<Rightarrow>
                           (case prepareInstructions e (jobTitle_arg a) (jobDescription_arg a) of
                              Throws x \<Rightarrow> Some (5, Thrown x)
                            | Returns instructions \<Rightarrow>
                                (case ai_feedback e uploadedFile_path instructions of
                                   Throws x \<Rightarrow> Some (5, Thrown x)
                                 | Returns response \<Rightarrow>
                                     response_failure e uuid data response))))))"

definition pipeline_failure :: "env \<Rightarrow> analyze_args \<Rightarrow> failure option" where
  "pipeline_failure e a =
     (case fs_upload e 0 [file_arg a] of
        Throws x \<Rightarrow> Some (1, Thrown x)
      | Returns uploadedFile \<Rightarrow>
          if \<not> truthy uploadedFile then Some (1, Invalid)
          else
            (case convertPdfToImage e (file_arg a) of
               Throws x \<Rightarrow> Some (2, Thrown x)
             | Returns ImageFile \<Rightarrow>
                 (case get_prop ImageFile ''file'' of
                    Inl x \<Rightarrow> Some (2, Thrown x)
                  | Inr ImageFile_file \<Rightarrow>
                      if \<not> truthy ImageFile_file then Some (2, Invalid)
                      else
                        (case fs_upload e 1 [ImageFile_file] of
                           Throws x \<Rightarrow> Some (3, Thrown x)
                         | Returns uploadedImage \<Rightarrow>
                             if \<not> truthy uploadedImage then Some (3, Invalid)
                             else persist_failure e a uploadedFile uploadedImage))))"

text \<open>The status message that each checked failure is reported with (lines 31, 38,
  45, 71, 88, 103, 110), and the status after a failure of either kind.\<close>

definition checked_message :: "nat \<Rightarrow> string" where
  "checked_message k =
     (if k = 1 then ''Failed to upload file. Please try again.''
      else if k = 2 then ''Failed to convert file to image.''
      else if k = 3 then ''Failed to upload File. Please try again.''
      else if k = 5 then ''Failed to analyze resume. Please try again.''
      else if k = 6 then ''Invalid AI response format. Please try again.''
      else if k = 8 then ''Failed to parse AI response. Please try again.''
      else ''Invalid feedback format from AI. Please try again.'')"

fun failure_status :: "env \<Rightarrow> failure \<Rightarrow> string" where
  "failure_status e (k, Invalid) = checked_message k"
| "failure_status e (k, Thrown x) = error_text e x"

text \<open>How the handler must end for a given first failure: by the \<^verbatim>\<open>return\<close> of the
  checked failure with the flag cleared and the message of the step, by the
  exception, or at its last statement.\<close>

fun run_outcome :: "failure option \<Rightarrow> abrupt + unit \<Rightarrow> state \<Rightarrow> bool" where
  "run_outcome None r s' = (r = Inr () \<and> statusText s' = ''Analysis Complete! Redirecting...'')"
| "run_outcome (Some (k, Invalid)) r s' =
     (r = Inl Return \<and> \<not> isProcessing s' \<and> statusText s' = checked_message k)"
| "run_outcome (Some (k, Thrown x)) r s' = (r = Inl (Throw x))"

text \<open>The number of external calls that belong to the steps up to step \<open>k\<close>: one
  each for steps 1 to 5, none for steps 6 to 9, two for step 10. A run whose first
  failure is a checked one at step \<open>k\<close> has made exactly the calls up to that step;
  an exception at step \<open>k\<close> leaves the count between that of step \<open>k - 1\<close> and that
  of step \<open>k\<close>; a run without failure has made all seven.\<close>

definition calls_through :: "nat \<Rightarrow> nat" where
  "calls_through k = (if k \<le> 4 then k else if k \<le> 9 then 5 else 7)"

fun calls_made_ok :: "failure option \<Rightarrow> nat \<Rightarrow> bool" where
  "calls_made_ok None n = (n = 7)"
| "calls_made_ok (Some (k, Invalid)) n = (n = calls_through k)"
| "calls_made_ok (Some (k, Thrown x)) n = (calls_through (k - 1) \<le> n \<and> n \<le> calls_through k)"

text \<open>A first failure behind the first write and before the second: steps 5 to 9.\<close>

fun late_failure :: "failure option \<Rightarrow> bool" where
  "late_failure None = False"
| "late_failure (Some (k, kind)) = (5 \<le> k \<and> k \<le> 9)"

subsection \<open>Vocabulary of the statements\<close>

text \<open>Which collaborator a logged call went to, and the order in which the handler
  reaches them: lines 28, 35, 42, 60, 64, 115, 120.\<close>

datatype call_kind = KFsUpload | KConvert | KKvSet | KAiFeedback | KNavigate

fun kind_of :: "call \<Rightarrow> call_kind" where
  "kind_of (FsUpload fs r) = KFsUpload"
| "kind_of (ConvertPdfToImage f r) = KConvert"
| "kind_of (KvSet k d r) = KKvSet"
| "kind_of (AiFeedback p i r) = KAiFeedback"
| "kind_of (Navigate u r) = KNavigate"

definition pipeline_order :: "call_kind list" where
  "pipeline_order = [KFsUpload, KConvert, KFsUpload, KKvSet, KAiFeedback, KKvSet, KNavigate]"

text \<open>A call whose step succeeded: it returned, and its result passed the check the
  handler makes on it (lines 29, 36, 43, 69); the results of \<^verbatim>\<open>kv.set\<close> and
  \<^verbatim>\<open>navigate\<close> are not checked.\<close>

fun call_ok :: "call \<Rightarrow> bool" where
  "call_ok (FsUpload fs (Returns v)) = truthy v"
| "call_ok (ConvertPdfToImage f (Returns v)) =
     (case get_prop v ''file'' of Inl e \<Rightarrow> False | Inr x \<Rightarrow> truthy x)"
| "call_ok (KvSet k d (Returns v)) = True"
| "call_ok (AiFeedback p i (Returns v)) = truthy v"
| "call_ok (Navigate u (Returns v)) = True"
| "call_ok c = False"

text \<open>
  The shape of a stretch of the log, for the collaborators \<open>rem\<close> that the code
  still has ahead of it: the calls follow that order, every call but the last
  succeeded, the stretch ran to its end exactly when all of \<open>rem\<close> was called with
  success, and a stretch left early either stopped two or more calls short of the end
  or ends with the call that failed.
\<close>

definition run_shape :: "call_kind list \<Rightarrow> abrupt + unit \<Rightarrow> call list \<Rightarrow> bool" where
  "run_shape rem r new =
     (prefix (map kind_of new) rem
      \<and> list_all call_ok (butlast new)
      \<and> ((r = Inr ()) = (map kind_of new = rem \<and> list_all call_ok new))
      \<and> (r \<noteq> Inr () \<longrightarrow> length new + 2 \<le> length rem \<or> \<not> call_ok (last new)))"

text \<open>The keys of the writes in a log.\<close>

fun write_keys :: "call list \<Rightarrow> string list" where
  "write_keys [] = []"
| "write_keys (KvSet k d r # cs) = k # write_keys cs"
| "write_keys (c # cs) = write_keys cs"

text \<open>The keys are all \<^verbatim>\<open>resume:\<close> followed by the one identifier that
  \<^verbatim>\<open>generateUUID\<close> produced; there are none if it threw.\<close>

definition keyed_by_uuid :: "env \<Rightarrow> string list \<Rightarrow> bool" where
  "keyed_by_uuid e ks =
     (case generateUUID e of
        Throws x \<Rightarrow> ks = []
      | Returns u \<Rightarrow> list_all (\<lambda>k. k = ''resume:'' @ u) ks)"

text \<open>The call at position \<open>i\<close> of the log \<open>new\<close> is a write that returned, its record
  is pending (\<^verbatim>\<open>feedback\<close> is the empty string), and the store \<open>m'\<close> is the store
  \<open>m\<close> with exactly that entry added.\<close>

definition write_stands ::
  "nat \<Rightarrow> call list \<Rightarrow> (string \<Rightarrow> resume_data option) \<Rightarrow> (string \<Rightarrow> resume_data option) \<Rightarrow> bool" where
  "write_stands i new m m' =
     (i < length new \<and>
      (case new ! i of
         KvSet k d (Returns v) \<Rightarrow> feedback d = JStr [] \<and> m' = m(k \<mapsto> d)
       | _ \<Rightarrow> False))"

text \<open>An own property is present on an object, whatever its value.\<close>

fun has_field :: "jsval \<Rightarrow> string \<Rightarrow> bool" where
  "has_field (JObj kvs) k = (map_of kvs k \<noteq> None)"
| "has_field v k = False"

text \<open>The two shapes of the \<^verbatim>\<open>feedback\<close> field: pending, or an object with the two
  required fields.\<close>

definition pending_or_validated :: "jsval \<Rightarrow> bool" where
  "pending_or_validated v =
     (v = JStr [] \<or> (has_field v ''overallScore'' \<and> has_field v ''ATS''))"

fun written_feedback_ok :: "call \<Rightarrow> bool" where
  "written_feedback_ok (KvSet k d r) = pending_or_validated (feedback d)"
| "written_feedback_ok c = True"

text \<open>A content item flagged as text, and an item the \<^verbatim>\<open>find\<close> callback passes over:
  one that is neither \<^verbatim>\<open>undefined\<close> nor \<^verbatim>\<open>null\<close>, is not flagged as text and has
  no truthy \<^verbatim>\<open>text\<close>.\<close>

definition text_flagged :: "jsval \<Rightarrow> bool" where
  "text_flagged item = (get_prop item ''type'' = Inr (JStr ''text''))"

definition passed_over :: "jsval \<Rightarrow> bool" where
  "passed_over item =
     (case get_prop item ''type'' of
        Inl e \<Rightarrow> False
      | Inr t \<Rightarrow> t \<noteq> JStr ''text'' \<and>
          (case get_prop item ''text'' of Inl e \<Rightarrow> False | Inr x \<Rightarrow> \<not> truthy x))"

subsection \<open>Sample runs\<close>

text \<open>A browser session in which every collaborator answers as hoped, used to
  instantiate the statements below; variants of it make single steps fail.\<close>

definition sample_text :: string where
  \<open>sample_text = ''{"overallScore":82,"ATS":{"score":75,"tips":[]}}''\<close>

definition zero_score_text :: string where
  \<open>zero_score_text = ''{"overallScore":0,"ATS":{"score":0,"tips":[]}}''\<close>

definition sample_feedback :: jsval where
  "sample_feedback =
     JObj [(''overallScore'', JNum 82),
           (''ATS'', JObj [(''score'', JNum 75), (''tips'', JArr [])])]"

definition zero_score_feedback :: jsval where
  "zero_score_feedback =
     JObj [(''overallScore'', JNum 0),
           (''ATS'', JObj [(''score'', JNum 0), (''tips'', JArr [])])]"

definition sample_response :: jsval where
  "sample_response =
     JObj [(''message'',
            JObj [(''role'', JStr ''assistant''),
                  (''content'', JStr (''```json'' @ [CHR 0x0A] @ sample_text @ [CHR 0x0A] @ ''```''))])]"

definition sample_env :: env where
  "sample_env =
     \<lparr>fs_upload = (\<lambda>n fs. Returns (JObj [(''path'', JStr (if n = 0 then ''/resume.pdf'' else ''/resume.png''))])),
      convertPdfToImage = (\<lambda>f. Returns (JObj [(''imageUrl'', JStr ''blob:1''), (''file'', JObj [(''name'', JStr ''resume.png'')])])),
      generateUUID = Returns ''u1'',
      kv_set = (\<lambda>n k d. Returns (JBool True)),
      prepareInstructions = (\<lambda>t d. Returns (t @ '': '' @ d)),
      ai_feedback = (\<lambda>p i. Returns sample_response),
      JSON_parse = (\<lambda>t. if t = sample_text then Some sample_feedback else None),
      navigate = (\<lambda>u. Returns ()),
      type_error_message = ''Cannot read properties of undefined''\<rparr>"

definition sample_args :: analyze_args where
  "sample_args =
     \<lparr>companyName_arg = ''Acme'', jobTitle_arg = ''Engineer'',
      jobDescription_arg = ''Build things'', file_arg = JObj [(''name'', JStr ''resume.pdf'')]\<rparr>"

text \<open>Variants of the sample session: the AI call is rejected by the service; the
  response carries an array whose first item is a note with a text of its own and
  whose second item is the text-flagged one, or an array of one text-flagged item
  with an empty text; the content is an object.\<close>

definition quota_env :: env where
  "quota_env = sample_env\<lparr>ai_feedback := (\<lambda>p i. Throws (ErrorObj ''quota exceeded''))\<rparr>"

definition note_item :: jsval where
  "note_item = JObj [(''type'', JStr ''note''), (''text'', JStr ''Here is the review.'')]"

definition text_item :: jsval where
  "text_item = JObj [(''type'', JStr ''text''), (''text'', JStr sample_text)]"

definition empty_text_item :: jsval where
  "empty_text_item =
     JObj [(''type'', JStr ''text''), (''text'', JStr []), (''content'', JStr ''see attachment'')]"

definition array_response :: "jsval list \<Rightarrow> jsval" where
  "array_response items = JObj [(''message'', JObj [(''content'', JArr items)])]"

definition object_response :: jsval where
  "object_response =
     JObj [(''message'', JObj [(''content'', JObj [(''text'', JStr sample_text)])])]"

text \<open>Two more variants: the AI answers with a plain sentence, which is not JSON;
  and the AI answers with well-formed JSON in which \<^verbatim>\<open>overallScore\<close> is \<open>0\<close>.\<close>

definition refusal_env :: env where
  "refusal_env =
     sample_env\<lparr>ai_feedback :=
                   (\<lambda>p i. Returns (JObj [(''message'',
                      JObj [(''content'', JStr ''I could not read the file.'')])]))\<rparr>"

definition zero_score_env :: env where
  "zero_score_env =
     sample_env\<lparr>ai_feedback :=
                   (\<lambda>p i. Returns (JObj [(''message'', JObj [(''content'', JStr zero_score_text)])])),
                 JSON_parse :=
                   (\<lambda>t. if t = zero_score_text then Some zero_score_feedback else None)\<rparr>"

text \<open>The state of a freshly mounted component (lines 14 and 15), with an empty store.\<close>

definition initial_state :: state where
  "initial_state =
     \<lparr>isProcessing = False, statusText = [], kv = Map.empty, calls = [], parsed = []\<rparr>"

definition sample_data :: resume_data where
  "sample_data =
     \<lparr>id_field = ''u1'', resumePath = JStr ''/resume.pdf'', imagePath = JStr ''/resume.png'',
      companyName = ''Acme'', jobTitle = ''Engineer'', jobDescription = ''Build things'',
      feedback = JStr []\<rparr>"

section \<open>Properties\<close>

lemmas proc_defs = unitP_def bindP_def thenP_def returnP_def liftE_def liftO_def
  setIsProcessing_def setStatusText_def external_def kv_set_call_def JSON_parse_call_def
  stop_with_def Let_def

lemmas handler_defs = handleAnalyze_def catchP_def handleAnalyze_try_def persist_and_analyze_def
  analyze_response_def validate_and_store_def error_text_def

lemmas failure_defs = pipeline_failure_def persist_failure_def response_failure_def
  validation_failure_def

lemmas extract_defs = extract_feedbackText_def typeof_string_def isArray_def js_or_def

lemmas sample_defs = sample_env_def sample_args_def initial_state_def sample_response_def
  sample_text_def sample_feedback_def sample_data_def zero_score_text_def
  zero_score_feedback_def quota_env_def note_item_def text_item_def array_response_def
  object_response_def refusal_env_def zero_score_env_def empty_text_item_def

lemmas all_splits = sum.splits outcome.splits option.splits if_splits prod.splits abrupt.splits

subsection \<open>Property reads\<close>

lemma get_prop_opt_prop: "get_prop v k = Inr x \<Longrightarrow> opt_prop v k = x"
  by (cases v) auto

lemma truthy_get_prop: "truthy v \<Longrightarrow> get_prop v k = Inr (opt_prop v k)"
  by (cases v) auto

lemma truthy_has_field: "get_prop p k = Inr x \<Longrightarrow> truthy x \<Longrightarrow> has_field p k"
  by (cases p) (auto split: option.splits)

subsection \<open>Text extraction\<close>

text \<open>
  C8. When the message content of the AI response is a plain string, the extracted
  text is that string.
\<close>

theorem extract_string_content:
  assumes "get_prop response ''message'' = Inr message"
    and "get_prop message ''content'' = Inr (JStr t)"
  shows "extract_feedbackText response = Inr (JStr t)"
  using assms by (simp add: extract_feedbackText_def typeof_string_def)

theorem extract_string_content_witness:
  "get_prop (JObj [(''message'', JObj [(''content'', JStr ''{}'')])]) ''message''
     = Inr (JObj [(''content'', JStr ''{}'')])
   \<and> get_prop (JObj [(''content'', JStr ''{}'')]) ''content'' = Inr (JStr ''{}'')
   \<and> extract_feedbackText (JObj [(''message'', JObj [(''content'', JStr ''{}'')])])
     = Inr (JStr ''{}'')"
  using extract_string_content [of "JObj [(''message'', JObj [(''content'', JStr ''{}'')])]"
      "JObj [(''content'', JStr ''{}'')]" "''{}''"]
  by simp

lemma find_text_first:
  assumes "list_all passed_over pre" and "text_flagged item"
  shows "find_text (pre @ item # post) = Inr item"
  using assms
proof (induction pre)
  case Nil
  then show ?case by (simp add: text_flagged_def)
next
  case (Cons p pre)
  then show ?case
    by (auto simp: passed_over_def split: sum.splits)
qed

text \<open>
  C3, as the code has it. When the message content is an array in which a
  text-flagged item with a truthy \<^verbatim>\<open>text\<close> comes before every other item that is
  text-flagged or has a truthy \<^verbatim>\<open>text\<close> (the items before it are neither
  \<^verbatim>\<open>undefined\<close> nor \<^verbatim>\<open>null\<close>), the extracted text is that item's \<^verbatim>\<open>text\<close>.
\<close>

theorem extract_first_text_item:
  assumes "get_prop response ''message'' = Inr message"
    and "get_prop message ''content'' = Inr (JArr (pre @ item # post))"
    and "list_all passed_over pre"
    and "text_flagged item"
    and "get_prop item ''text'' = Inr t"
    and "truthy t"
  shows "extract_feedbackText response = Inr t"
proof -
  have "find_text (pre @ item # post) = Inr item"
    using assms(3,4) by (rule find_text_first)
  moreover have "opt_prop item ''text'' = t"
    using assms(5) by (rule get_prop_opt_prop)
  ultimately show ?thesis
    using assms(1,2,6) by (simp add: extract_defs)
qed

theorem extract_first_text_item_witness:
  "get_prop (array_response [JObj [(''type'', JStr ''image'')], text_item, note_item]) ''message''
     = Inr (JObj [(''content'', JArr ([JObj [(''type'', JStr ''image'')]] @ text_item # [note_item]))])
   \<and> get_prop (JObj [(''content'', JArr ([JObj [(''type'', JStr ''image'')]] @ text_item # [note_item]))])
         ''content''
     = Inr (JArr ([JObj [(''type'', JStr ''image'')]] @ text_item # [note_item]))
   \<and> list_all passed_over [JObj [(''type'', JStr ''image'')]]
   \<and> text_flagged text_item
   \<and> get_prop text_item ''text'' = Inr (JStr sample_text)
   \<and> truthy (JStr sample_text)
   \<and> extract_feedbackText (array_response [JObj [(''type'', JStr ''image'')], text_item, note_item])
     = Inr (JStr sample_text)"
  using extract_first_text_item [of
      "array_response [JObj [(''type'', JStr ''image'')], text_item, note_item]"
      "JObj [(''content'', JArr ([JObj [(''type'', JStr ''image'')]] @ text_item # [note_item]))]"
      "[JObj [(''type'', JStr ''image'')]]" text_item "[note_item]" "JStr sample_text"]
  by (simp add: sample_defs passed_over_def text_flagged_def)

text \<open>
  C3 as stated fails. The first array below contains exactly one text-flagged
  item, and the extracted text is the \<^verbatim>\<open>text\<close> of the note in front of it. The
  second array consists of one text-flagged item whose \<^verbatim>\<open>text\<close> is empty, and the
  extracted text is its \<^verbatim>\<open>content\<close>.
\<close>

theorem extract_text_flagged_counterexample:
  "filter text_flagged [note_item, text_item] = [text_item]
   \<and> get_prop text_item ''text'' = Inr (JStr sample_text)
   \<and> extract_feedbackText (array_response [note_item, text_item])
     = Inr (JStr ''Here is the review.'')
   \<and> extract_feedbackText (array_response [note_item, text_item]) \<noteq> Inr (JStr sample_text)
   \<and> text_flagged empty_text_item
   \<and> get_prop empty_text_item ''text'' = Inr (JStr [])
   \<and> extract_feedbackText (array_response [empty_text_item]) = Inr (JStr ''see attachment'')
   \<and> extract_feedbackText (array_response [empty_text_item]) \<noteq> Inr (JStr [])"
  by (simp add: sample_defs text_flagged_def extract_defs)

text \<open>
  C10. When the response is truthy and its message content is neither a string nor
  an array, the extracted text is the empty string, and the handler stops there:
  it clears the processing flag, reports the invalid response format, throws
  nothing, and parses nothing (the logs are as they were).
\<close>

theorem non_text_content_rejected:
  assumes "truthy response"
    and "get_prop response ''message'' = Inr message"
    and "get_prop message ''content'' = Inr content"
    and "\<not> typeof_string content"
    and "\<not> isArray content"
  shows "extract_feedbackText response = Inr (JStr [])
    \<and> analyze_response e uuid data response s =
        (Inl Return, s\<lparr>isProcessing := False,
                        statusText := ''Invalid AI response format. Please try again.''\<rparr>)"
  using assms
  by (simp add: analyze_response_def extract_feedbackText_def proc_defs)

theorem non_text_content_rejected_witness:
  "truthy object_response
   \<and> get_prop object_response ''message'' = Inr (JObj [(''content'', JObj [(''text'', JStr sample_text)])])
   \<and> get_prop (JObj [(''content'', JObj [(''text'', JStr sample_text)])]) ''content''
     = Inr (JObj [(''text'', JStr sample_text)])
   \<and> \<not> typeof_string (JObj [(''text'', JStr sample_text)])
   \<and> \<not> isArray (JObj [(''text'', JStr sample_text)])
   \<and> extract_feedbackText object_response = Inr (JStr [])
   \<and> analyze_response sample_env ''u1'' sample_data object_response initial_state =
        (Inl Return, initial_state\<lparr>isProcessing := False,
                        statusText := ''Invalid AI response format. Please try again.''\<rparr>)"
  using non_text_content_rejected [of object_response
      "JObj [(''content'', JObj [(''text'', JStr sample_text)])]"
      "JObj [(''text'', JStr sample_text)]" sample_env "''u1''" sample_data initial_state]
  by (simp add: object_response_def typeof_string_def isArray_def)

subsection \<open>Runs and their first failure\<close>

text \<open>
  Each part of the handler ends as the first failure among the collaborators'
  answers prescribes, has then made the calls of the steps up to that failure and
  no others, and after a failure in steps 5 to 9 has left log and store as they
  were when the part began.
\<close>

lemma write_keys_append: "write_keys (xs @ ys) = write_keys xs @ write_keys ys"
proof (induction xs)
  case Nil
  then show ?case by simp
next
  case (Cons c xs)
  then show ?case by (cases c) simp_all
qed

lemma validate_outcome:
  "validate_and_store e uuid data p s = (r, s') \<Longrightarrow>
     run_outcome (validation_failure e uuid data p) r s'
     \<and> (r = Inr () \<longrightarrow> isProcessing s' = isProcessing s)
     \<and> (length (calls s) = 5 \<longrightarrow>
          calls_made_ok (validation_failure e uuid data p) (length (calls s')))
     \<and> (late_failure (validation_failure e uuid data p) \<longrightarrow>
          calls s' = calls s \<and> kv s' = kv s)"
  unfolding validate_and_store_def proc_defs validation_failure_def
  by (auto split: all_splits simp: checked_message_def calls_through_def)

lemma analyze_outcome:
  "analyze_response e uuid data response s = (r, s') \<Longrightarrow>
     run_outcome (response_failure e uuid data response) r s'
     \<and> (r = Inr () \<longrightarrow> isProcessing s' = isProcessing s)
     \<and> (length (calls s) = 5 \<longrightarrow>
          calls_made_ok (response_failure e uuid data response) (length (calls s')))
     \<and> (late_failure (response_failure e uuid data response) \<longrightarrow>
          calls s' = calls s \<and> kv s' = kv s)"
  unfolding analyze_response_def proc_defs response_failure_def
  by (auto split: all_splits jsval.splits dest!: validate_outcome
      simp: checked_message_def calls_through_def)

lemma persist_outcome:
  "persist_and_analyze e a uploadedFile uploadedImage s = (r, s') \<Longrightarrow>
     run_outcome (persist_failure e a uploadedFile uploadedImage) r s'
     \<and> (r = Inr () \<longrightarrow> isProcessing s' = isProcessing s)
     \<and> (length (calls s) = 3 \<longrightarrow>
          calls_made_ok (persist_failure e a uploadedFile uploadedImage) (length (calls s'))
          \<and> (late_failure (persist_failure e a uploadedFile uploadedImage) \<longrightarrow>
               write_stands 3 (calls s') (kv s) (kv s')
               \<and> length (write_keys (calls s')) = Suc (length (write_keys (calls s)))))"
  unfolding persist_and_analyze_def proc_defs persist_failure_def
  by (auto split: all_splits dest!: analyze_outcome
      simp: checked_message_def calls_through_def write_stands_def nth_append write_keys_append)

lemma try_outcome:
  "handleAnalyze_try e a s = (r, s') \<Longrightarrow>
     run_outcome (pipeline_failure e a) r s'
     \<and> (r = Inr () \<longrightarrow> isProcessing s')
     \<and> (calls s = [] \<longrightarrow>
          calls_made_ok (pipeline_failure e a) (length (calls s'))
          \<and> (late_failure (pipeline_failure e a) \<longrightarrow>
               write_stands 3 (calls s') (kv s) (kv s')
               \<and> length (write_keys (calls s')) = 1))"
  unfolding handleAnalyze_try_def proc_defs pipeline_failure_def
  by (auto split: all_splits dest!: persist_outcome
      simp: checked_message_def calls_through_def write_keys_append)

lemma handleAnalyze_logs:
  "calls (snd (handleAnalyze e a s)) = calls (snd (handleAnalyze_try e a s))"
  "parsed (snd (handleAnalyze e a s)) = parsed (snd (handleAnalyze_try e a s))"
  "kv (snd (handleAnalyze e a s)) = kv (snd (handleAnalyze_try e a s))"
  by (auto simp: handleAnalyze_def catchP_def proc_defs split: prod.splits sum.splits abrupt.splits)

lemma checked_message_nonempty: "checked_message k \<noteq> []"
  by (simp add: checked_message_def)

text \<open>
  C1. Whatever the collaborators answer, no exception leaves the handler and the
  status message it leaves is not empty. And whenever a step fails, that is, the
  first failure among the answers is a falsy or invalid result at step 1, 2, 3, 5,
  6, 8 or 9, or an exception thrown at any step, the handler ends with the
  processing flag false and with the message of that failure: the message of the
  step for a checked failure, \<^verbatim>\<open>Error:\<close> with the error's text for an exception.
\<close>

theorem failure_clears_processing:
  "fst (handleAnalyze e a s) \<noteq> Inl (Throw x)
   \<and> statusText (snd (handleAnalyze e a s)) \<noteq> []
   \<and> (pipeline_failure e a = Some f \<longrightarrow>
        \<not> isProcessing (snd (handleAnalyze e a s))
        \<and> statusText (snd (handleAnalyze e a s)) = failure_status e f
        \<and> failure_status e f \<noteq> [])"
proof (cases "handleAnalyze_try e a s")
  case (Pair r s')
  from try_outcome [OF Pair] have out: "run_outcome (pipeline_failure e a) r s'" by simp
  show ?thesis
  proof (cases "pipeline_failure e a")
    case None
    with out Pair show ?thesis
      by (simp add: handleAnalyze_def catchP_def)
  next
    case (Some g)
    obtain k kind where g: "g = (k, kind)" by (cases g)
    show ?thesis
    proof (cases kind)
      case Invalid
      with out Some g Pair show ?thesis
        by (auto simp: handleAnalyze_def catchP_def checked_message_nonempty)
    next
      case (Thrown err)
      with out Some g Pair show ?thesis
        by (auto simp: handleAnalyze_def catchP_def proc_defs error_text_def)
    qed
  qed
qed

theorem failure_clears_processing_witness:
  "pipeline_failure quota_env sample_args = Some (5, Thrown (ErrorObj ''quota exceeded''))
   \<and> \<not> isProcessing (snd (handleAnalyze quota_env sample_args initial_state))
   \<and> statusText (snd (handleAnalyze quota_env sample_args initial_state)) = ''Error: quota exceeded''
   \<and> pipeline_failure refusal_env sample_args = Some (8, Invalid)
   \<and> \<not> isProcessing (snd (handleAnalyze refusal_env sample_args initial_state))
   \<and> statusText (snd (handleAnalyze refusal_env sample_args initial_state))
     = ''Failed to parse AI response. Please try again.''
   \<and> pipeline_failure zero_score_env sample_args = Some (9, Invalid)
   \<and> \<not> isProcessing (snd (handleAnalyze zero_score_env sample_args initial_state))
   \<and> statusText (snd (handleAnalyze zero_score_env sample_args initial_state))
     = ''Invalid feedback format from AI. Please try again.''"
proof -
  have thrown: "pipeline_failure quota_env sample_args = Some (5, Thrown (ErrorObj ''quota exceeded''))"
    by (simp add: failure_defs sample_defs)
  have unparsed: "pipeline_failure refusal_env sample_args = Some (8, Invalid)"
    by (simp add: failure_defs sample_defs extract_defs clean_feedbackText_def trim_def is_space_def)
  have invalid: "pipeline_failure zero_score_env sample_args = Some (9, Invalid)"
    by (simp add: failure_defs sample_defs extract_defs clean_feedbackText_def trim_def is_space_def)
  from thrown unparsed invalid
    failure_clears_processing [of quota_env sample_args initial_state _ "(5, Thrown (ErrorObj ''quota exceeded''))"]
    failure_clears_processing [of refusal_env sample_args initial_state _ "(8, Invalid)"]
    failure_clears_processing [of zero_score_env sample_args initial_state _ "(9, Invalid)"]
  show ?thesis
    by (simp add: error_text_def checked_message_def)
qed

subsection \<open>What is written to the store\<close>

lemma validate_written:
  "validate_and_store e uuid data p s = (r, s') \<Longrightarrow>
   list_all written_feedback_ok (calls s) \<Longrightarrow> list_all written_feedback_ok (calls s')"
  unfolding validate_and_store_def proc_defs
  by (auto split: all_splits simp: pending_or_validated_def truthy_has_field)

lemma analyze_written:
  "analyze_response e uuid data response s = (r, s') \<Longrightarrow>
   list_all written_feedback_ok (calls s) \<Longrightarrow> list_all written_feedback_ok (calls s')"
  unfolding analyze_response_def proc_defs
  by (auto split: all_splits dest: validate_written)

lemma persist_written:
  "persist_and_analyze e a u1 u2 s = (r, s') \<Longrightarrow>
   list_all written_feedback_ok (calls s) \<Longrightarrow> list_all written_feedback_ok (calls s')"
  unfolding persist_and_analyze_def proc_defs
  by (auto split: all_splits dest!: analyze_written simp: pending_or_validated_def)

lemma try_written:
  "handleAnalyze_try e a s = (r, s') \<Longrightarrow>
   list_all written_feedback_ok (calls s) \<Longrightarrow> list_all written_feedback_ok (calls s')"
  unfolding handleAnalyze_try_def proc_defs
  by (auto split: all_splits dest!: persist_written)

text \<open>
  C6. In a run that starts with an empty log, every record handed to \<^verbatim>\<open>kv.set\<close> has
  a \<^verbatim>\<open>feedback\<close> field that is the empty string or an object on which both
  \<^verbatim>\<open>overallScore\<close> and \<^verbatim>\<open>ATS\<close> are present.
\<close>

theorem written_feedback_invariant:
  assumes "calls s = []"
  shows "list_all written_feedback_ok (calls (snd (handleAnalyze e a s)))"
proof (cases "handleAnalyze_try e a s")
  case (Pair r s')
  from try_written [OF Pair] assms have "list_all written_feedback_ok (calls s')" by simp
  with Pair show ?thesis by (simp add: handleAnalyze_logs)
qed

theorem written_feedback_invariant_witness:
  "calls initial_state = []
   \<and> write_keys (calls (snd (handleAnalyze sample_env sample_args initial_state)))
     = [''resume:u1'', ''resume:u1'']
   \<and> list_all written_feedback_ok (calls (snd (handleAnalyze sample_env sample_args initial_state)))"
proof -
  have start: "calls initial_state = []"
    by (simp add: initial_state_def)
  have writes: "write_keys (calls (snd (handleAnalyze sample_env sample_args initial_state)))
      = [''resume:u1'', ''resume:u1'']"
    by (simp add: handler_defs proc_defs sample_defs extract_defs clean_feedbackText_def
        trim_def is_space_def)
  from start writes written_feedback_invariant [OF start, of sample_env sample_args]
  show ?thesis by blast
qed

subsection \<open>Fences are gone before parsing\<close>

lemma strip_fence_hd:
  "strip_marker ''```'' s = c # r \<Longrightarrow> c = CHR 0x60 \<Longrightarrow> \<exists>s'. s = CHR 0x60 # s'"
  by (cases s) (auto split: if_splits)

lemma strip_fence_hd2:
  assumes a: "strip_marker ''```'' s = CHR 0x60 # CHR 0x60 # r"
  shows "\<exists>s'. s = CHR 0x60 # CHR 0x60 # s'"
proof (cases s)
  case Nil
  with a show ?thesis by simp
next
  case (Cons c cs)
  show ?thesis
  proof (cases "take 3 (c # cs) = ''```''")
    case True
    then show ?thesis using Cons by (cases cs) (auto simp: numeral_3_eq_3)
  next
    case False
    with a Cons have "c = CHR 0x60" and "strip_marker ''```'' cs = CHR 0x60 # r"
      by (auto simp: numeral_3_eq_3)
    with strip_fence_hd[of cs "CHR 0x60" r] Cons show ?thesis by auto
  qed
qed

lemma occurs_sublist: "occurs m s \<longleftrightarrow> sublist m s"
proof (induction s)
  case Nil
  then show ?case by auto
next
  case (Cons c cs)
  have "take (length m) (c # cs) = m \<longleftrightarrow> prefix m (c # cs)"
  proof
    assume "take (length m) (c # cs) = m"
    then have "c # cs = m @ drop (length m) (c # cs)"
      by (metis append_take_drop_id)
    then show "prefix m (c # cs)" by (metis prefixI)
  next
    assume "prefix m (c # cs)"
    then obtain r where "c # cs = m @ r" by (auto simp: prefix_def)
    then show "take (length m) (c # cs) = m" by simp
  qed
  then show ?case using Cons by (simp add: sublist_Cons_right)
qed

lemma no_fence_strip: "\<not> occurs ''```'' (strip_marker ''```'' s)"
proof (induction "''```''" s rule: strip_marker.induct)
  case 1
  then show ?case by simp
next
  case (2 c cs)
  show ?case
  proof (cases "take (length ''```'') (c # cs) = ''```''")
    case True
    with 2 show ?thesis by simp
  next
    case False
    with 2 have ih: "\<not> occurs ''```'' (strip_marker ''```'' cs)" by simp
    have eq: "strip_marker ''```'' (c # cs) = c # strip_marker ''```'' cs"
      by (simp only: strip_marker.simps False if_False)
    have "take (length ''```'') (c # strip_marker ''```'' cs) \<noteq> ''```''"
    proof
      assume t: "take (length ''```'') (c # strip_marker ''```'' cs) = ''```''"
      then obtain r where "c = CHR 0x60"
        and "strip_marker ''```'' cs = CHR 0x60 # CHR 0x60 # r"
        by (cases "strip_marker ''```'' cs"; cases "tl (strip_marker ''```'' cs)") auto
      with strip_fence_hd2 [of cs r] False show False by auto
    qed
    with ih show ?thesis unfolding eq by (simp only: occurs.simps simp_thms)
  qed
qed

lemma sublist_trim: "sublist (trim s) s"
proof -
  have "suffix (dropWhile is_space s) s" by (rule suffix_dropWhile)
  moreover have "prefix (rev (dropWhile is_space (rev (dropWhile is_space s))))
      (dropWhile is_space s)"
    using suffix_dropWhile [of is_space "rev (dropWhile is_space s)"]
    by (simp add: suffix_to_prefix)
  ultimately show ?thesis
    unfolding trim_def
    by (meson prefix_imp_sublist suffix_imp_sublist sublist_order.order_trans)
qed

lemma clean_no_fence: "\<not> occurs ''```'' (clean_feedbackText t)"
  using no_fence_strip [of "strip_marker ''```json'' t"]
    sublist_trim [of "strip_marker ''```'' (strip_marker ''```json'' t)"]
  unfolding clean_feedbackText_def occurs_sublist
  by (meson sublist_order.order_trans)

lemma clean_no_json_fence: "\<not> occurs ''```json'' (clean_feedbackText t)"
proof
  assume "occurs ''```json'' (clean_feedbackText t)"
  then have "sublist ''```json'' (clean_feedbackText t)"
    by (simp only: occurs_sublist)
  moreover have "sublist ''```'' ''```json''"
    by (rule prefix_imp_sublist) (simp add: prefix_def)
  ultimately have "sublist ''```'' (clean_feedbackText t)"
    by (meson sublist_order.order_trans)
  with clean_no_fence [of t] show False
    unfolding occurs_sublist by blast
qed

lemma take_eq_prefix: "take (length m) s = m \<longleftrightarrow> prefix m s"
proof
  assume "take (length m) s = m"
  then have "s = m @ drop (length m) s" by (metis append_take_drop_id)
  then show "prefix m s" by (metis prefixI)
next
  assume "prefix m s"
  then obtain r where "s = m @ r" by (auto simp: prefix_def)
  then show "take (length m) s = m" by simp
qed

lemma strip_marker_Cons:
  "strip_marker m (c # cs) =
     (if prefix m (c # cs) then strip_marker m (drop_newline (drop (length m - 1) cs))
      else c # strip_marker m cs)"
  by (simp only: strip_marker.simps take_eq_prefix)

lemma strip_keeps:
  "CHR 0x60 \<notin> set u \<Longrightarrow> strip_marker (CHR 0x60 # m) (u @ x) = u @ strip_marker (CHR 0x60 # m) x"
proof (induction u)
  case Nil
  then show ?case by simp
next
  case (Cons c u)
  then show ?case by (simp add: strip_marker_Cons del: strip_marker.simps)
qed

lemma strip_tagged_head:
  "strip_marker ''```json'' (''```json'' @ x) = strip_marker ''```json'' (drop_newline x)"
  by (simp add: strip_marker_Cons del: strip_marker.simps)

lemma strip_fence_head:
  "strip_marker ''```'' (''```'' @ x) = strip_marker ''```'' (drop_newline x)"
  by (simp add: strip_marker_Cons del: strip_marker.simps)

lemma strip_tagged_skips_fence:
  assumes "\<not> prefix ''json'' x" and "\<not> prefix ''`json'' x" and "\<not> prefix ''``json'' x"
  shows "strip_marker ''```json'' (''```'' @ x) = ''```'' @ strip_marker ''```json'' x"
  using assms by (simp add: strip_marker_Cons del: strip_marker.simps)

lemma drop_newline_id: "\<not> prefix [CHR 0x0A] x \<Longrightarrow> drop_newline x = x"
  by (cases x) auto

lemma render_backtick:
  "fenced ps \<Longrightarrow> prefix [CHR 0x60] (render ps) \<Longrightarrow> prefix ''```'' (render ps)"
proof (induction ps)
  case Nil
  then show ?case by simp
next
  case (Cons q ps)
  show ?case
  proof (cases q)
    case (Plain p)
    with Cons show ?thesis by (cases p) auto
  next
    case (Fence tagged nl)
    then show ?thesis by simp
  qed
qed

lemma strip_tagged_render:
  "fenced ps \<Longrightarrow> strip_marker ''```json'' (render ps) = render (untagged ps)"
proof (induction ps)
  case Nil
  then show ?case by simp
next
  case (Cons q ps)
  show ?case
  proof (cases q)
    case (Plain p)
    with Cons show ?thesis
      using strip_keeps [of p "''``json''" "render ps"] by simp
  next
    case (Fence tagged nl)
    show ?thesis
    proof (cases tagged)
      case True
      with Fence Cons show ?thesis
        using strip_tagged_head [of "(if nl then [CHR 0x0A] else []) @ render ps"]
        by (auto simp: drop_newline_id simp del: strip_marker.simps)
    next
      case False
      note untag = False
      show ?thesis
      proof (cases nl)
        case True
        have "strip_marker ''```json'' (''```'' @ CHR 0x0A # render ps)
            = ''```'' @ strip_marker ''```json'' (CHR 0x0A # render ps)"
          by (rule strip_tagged_skips_fence) simp_all
        moreover have "strip_marker ''```json'' (CHR 0x0A # render ps)
            = CHR 0x0A # strip_marker ''```json'' (render ps)"
          using strip_keeps [of "[CHR 0x0A]" "''``json''" "render ps"] by simp
        ultimately show ?thesis
          using Fence Cons untag True by (simp del: strip_marker.simps)
      next
        case False
        from Fence Cons.prems untag False
        have f: "fenced ps" and j: "\<not> prefix ''json'' (render ps)"
          by simp_all
        have b: "\<not> prefix [CHR 0x60] (render ps) \<or> prefix ''```'' (render ps)"
          using render_backtick [OF f] by blast
        have "\<not> prefix ''`json'' (render ps)" "\<not> prefix ''``json'' (render ps)"
          using b by (cases "render ps"; cases "tl (render ps)"; cases "tl (tl (render ps))"; auto)+
        with j have "strip_marker ''```json'' (''```'' @ render ps)
            = ''```'' @ strip_marker ''```json'' (render ps)"
          by (intro strip_tagged_skips_fence)
        then show ?thesis
          using Fence Cons untag False by (simp del: strip_marker.simps)
      qed
    qed
  qed
qed

lemma untagged_newline:
  "prefix [CHR 0x0A] (render (untagged ps)) \<Longrightarrow>
     prefix [CHR 0x0A] (render ps) \<or> prefix ''```json'' (render ps)"
proof (induction ps)
  case Nil
  then show ?case by simp
next
  case (Cons q ps)
  show ?case
  proof (cases q)
    case (Plain p)
    with Cons show ?thesis by (cases p) auto
  next
    case (Fence tagged nl)
    with Cons show ?thesis by (cases tagged) auto
  qed
qed

lemma strip_fence_render:
  "fenced ps \<Longrightarrow> strip_marker ''```'' (render (untagged ps)) = plain_text ps"
proof (induction ps)
  case Nil
  then show ?case by simp
next
  case (Cons q ps)
  show ?case
  proof (cases q)
    case (Plain p)
    with Cons show ?thesis
      using strip_keeps [of p "''``''" "render (untagged ps)"] by simp
  next
    case (Fence tagged nl)
    show ?thesis
    proof (cases tagged)
      case True
      with Fence Cons show ?thesis by simp
    next
      case False
      have "drop_newline ((if nl then [CHR 0x0A] else []) @ render (untagged ps))
          = render (untagged ps)"
      proof (cases nl)
        case True
        then show ?thesis by simp
      next
        case no: False
        with Fence Cons.prems False
        have "\<not> prefix [CHR 0x0A] (render ps)" "\<not> prefix ''```json'' (render ps)"
          by simp_all
        with untagged_newline [of ps] have "\<not> prefix [CHR 0x0A] (render (untagged ps))"
          by blast
        with no show ?thesis by (simp add: drop_newline_id)
      qed
      with Fence Cons False show ?thesis
        using strip_fence_head [of "(if nl then [CHR 0x0A] else []) @ render (untagged ps)"]
        by (simp del: strip_marker.simps)
    qed
  qed
qed

lemma clean_render: "fenced ps \<Longrightarrow> clean_feedbackText (render ps) = trim (plain_text ps)"
  by (simp add: clean_feedbackText_def strip_tagged_render strip_fence_render del: strip_marker.simps)

lemma validate_parsed:
  "validate_and_store e uuid data p s = (r, s') \<Longrightarrow> parsed s' = parsed s"
  unfolding validate_and_store_def proc_defs
  by (auto split: all_splits)

lemma analyze_parsed:
  "analyze_response e uuid data response s = (r, s') \<Longrightarrow>
   parsed s' = parsed s \<or> (\<exists>t. parsed s' = parsed s @ [clean_feedbackText t])"
  unfolding analyze_response_def proc_defs
  by (auto split: all_splits jsval.splits dest!: validate_parsed)

lemma persist_parsed:
  "persist_and_analyze e a u1 u2 s = (r, s') \<Longrightarrow>
   parsed s' = parsed s \<or> (\<exists>t. parsed s' = parsed s @ [clean_feedbackText t])"
  unfolding persist_and_analyze_def proc_defs
  by (auto split: all_splits dest!: analyze_parsed)

lemma try_parsed:
  "handleAnalyze_try e a s = (r, s') \<Longrightarrow>
   parsed s' = parsed s \<or> (\<exists>t. parsed s' = parsed s @ [clean_feedbackText t])"
  unfolding handleAnalyze_try_def proc_defs
  by (auto split: all_splits dest!: persist_parsed)

text \<open>
  C7. Line 92 takes the markers out of the text, and only them. For every text,
  what it produces contains neither of the two markers any more. For every text
  whose backticks all belong to fence markers (tagged with \<^verbatim>\<open>json\<close> or not, each
  with or without its line feed), what it produces is the text with every marker
  and the line feed that belongs to it deleted, then trimmed; nothing else is
  removed. What \<^verbatim>\<open>JSON.parse\<close> receives for a response whose extracted text is a
  non-empty string \<open>t\<close> is exactly that product, and in a whole run of the handler
  every text handed to \<^verbatim>\<open>JSON.parse\<close> is free of fence markers.
\<close>

theorem fences_removed_before_parse:
  "\<not> occurs ''```'' (clean_feedbackText t)
   \<and> \<not> occurs ''```json'' (clean_feedbackText t)
   \<and> (fenced ps \<longrightarrow> clean_feedbackText (render ps) = trim (plain_text ps))
   \<and> (truthy response \<and> extract_feedbackText response = Inr (JStr t) \<and> t \<noteq> [] \<longrightarrow>
        parsed (snd (analyze_response e uuid data response s)) = parsed s @ [clean_feedbackText t])
   \<and> (parsed s = [] \<longrightarrow>
        list_all (\<lambda>x. \<not> occurs ''```'' x) (parsed (snd (handleAnalyze e a s))))"
proof (intro conjI impI)
  show "\<not> occurs ''```'' (clean_feedbackText t)" by (rule clean_no_fence)
next
  show "\<not> occurs ''```json'' (clean_feedbackText t)" by (rule clean_no_json_fence)
next
  assume "fenced ps"
  then show "clean_feedbackText (render ps) = trim (plain_text ps)" by (rule clean_render)
next
  assume h: "truthy response \<and> extract_feedbackText response = Inr (JStr t) \<and> t \<noteq> []"
  obtain r s' where v: "validate_and_store e uuid data (the (JSON_parse e (clean_feedbackText t)))
      (s\<lparr>parsed := parsed s @ [clean_feedbackText t]\<rparr>) = (r, s')"
    by (cases "validate_and_store e uuid data (the (JSON_parse e (clean_feedbackText t)))
      (s\<lparr>parsed := parsed s @ [clean_feedbackText t]\<rparr>)")
  from validate_parsed [OF v] v h
  show "parsed (snd (analyze_response e uuid data response s)) = parsed s @ [clean_feedbackText t]"
    by (auto simp: analyze_response_def proc_defs split: option.splits)
next
  assume p: "parsed s = []"
  obtain r s' where t: "handleAnalyze_try e a s = (r, s')" by (cases "handleAnalyze_try e a s")
  from try_parsed [OF t] p t
  show "list_all (\<lambda>x. \<not> occurs ''```'' x) (parsed (snd (handleAnalyze e a s)))"
    by (auto simp: handleAnalyze_logs clean_no_fence)
qed

theorem fences_removed_before_parse_witness:
  "fenced [Plain ''Here it is:'', Fence True True, Plain (sample_text @ [CHR 0x0A]), Fence False False]
   \<and> render [Plain ''Here it is:'', Fence True True, Plain (sample_text @ [CHR 0x0A]), Fence False False]
     = ''Here it is:```json'' @ [CHR 0x0A] @ sample_text @ [CHR 0x0A] @ ''```''
   \<and> clean_feedbackText (''Here it is:```json'' @ [CHR 0x0A] @ sample_text @ [CHR 0x0A] @ ''```'')
     = ''Here it is:'' @ sample_text
   \<and> truthy sample_response
   \<and> extract_feedbackText sample_response
     = Inr (JStr (''```json'' @ [CHR 0x0A] @ sample_text @ [CHR 0x0A] @ ''```''))
   \<and> ''```json'' @ [CHR 0x0A] @ sample_text @ [CHR 0x0A] @ ''```'' \<noteq> []
   \<and> parsed initial_state = []
   \<and> parsed (snd (analyze_response sample_env ''u1'' sample_data sample_response initial_state))
     = parsed initial_state
       @ [clean_feedbackText (''```json'' @ [CHR 0x0A] @ sample_text @ [CHR 0x0A] @ ''```'')]
   \<and> list_all (\<lambda>x. \<not> occurs ''```'' x)
         (parsed (snd (handleAnalyze sample_env sample_args initial_state)))"
proof -
  have pieces: "fenced
      [Plain ''Here it is:'', Fence True True, Plain (sample_text @ [CHR 0x0A]), Fence False False]"
    by (simp add: sample_text_def)
  have rendered: "render
      [Plain ''Here it is:'', Fence True True, Plain (sample_text @ [CHR 0x0A]), Fence False False]
      = ''Here it is:```json'' @ [CHR 0x0A] @ sample_text @ [CHR 0x0A] @ ''```''"
    by simp
  have trimmed: "trim (plain_text
      [Plain ''Here it is:'', Fence True True, Plain (sample_text @ [CHR 0x0A]), Fence False False])
      = ''Here it is:'' @ sample_text"
    by (simp add: sample_text_def trim_def is_space_def)
  have response: "truthy sample_response
      \<and> extract_feedbackText sample_response
        = Inr (JStr (''```json'' @ [CHR 0x0A] @ sample_text @ [CHR 0x0A] @ ''```''))
      \<and> ''```json'' @ [CHR 0x0A] @ sample_text @ [CHR 0x0A] @ ''```'' \<noteq> []"
    by (simp add: sample_response_def extract_defs)
  have start: "parsed initial_state = []"
    by (simp add: initial_state_def)
  from pieces response start
    fences_removed_before_parse [of "''```json'' @ [CHR 0x0A] @ sample_text @ [CHR 0x0A] @ ''```''"
      "[Plain ''Here it is:'', Fence True True, Plain (sample_text @ [CHR 0x0A]), Fence False False]"
      sample_response sample_env "''u1''" sample_data initial_state sample_args]
  show ?thesis
    unfolding rendered trimmed by blast
qed

subsection \<open>The order of the external calls\<close>

lemma keyed_by_uuid_Nil: "keyed_by_uuid e []"
  by (simp add: keyed_by_uuid_def split: outcome.splits)

lemma validate_shape:
  "validate_and_store e uuid data p s = (r, s') \<Longrightarrow>
   \<exists>new. calls s' = calls s @ new \<and> run_shape [KKvSet, KNavigate] r new
     \<and> list_all (\<lambda>k. k = ''resume:'' @ uuid) (write_keys new)"
  unfolding validate_and_store_def proc_defs run_shape_def
  by (auto split: all_splits)

lemma analyze_shape:
  "analyze_response e uuid data response s = (r, s') \<Longrightarrow>
   \<exists>new. calls s' = calls s @ new \<and> run_shape [KKvSet, KNavigate] r new
     \<and> list_all (\<lambda>k. k = ''resume:'' @ uuid) (write_keys new)
     \<and> (new \<noteq> [] \<longrightarrow> truthy response)"
  unfolding analyze_response_def proc_defs
  by (auto split: all_splits dest!: validate_shape simp: run_shape_def)

lemma persist_shape:
  "persist_and_analyze e a u1 u2 s = (r, s') \<Longrightarrow>
   \<exists>new. calls s' = calls s @ new
     \<and> run_shape [KKvSet, KAiFeedback, KKvSet, KNavigate] r new
     \<and> keyed_by_uuid e (write_keys new)"
  unfolding persist_and_analyze_def proc_defs
  by (auto split: all_splits dest!: analyze_shape
      simp: run_shape_def keyed_by_uuid_def)

lemma try_shape:
  "handleAnalyze_try e a s = (r, s') \<Longrightarrow>
   \<exists>new. calls s' = calls s @ new
     \<and> run_shape pipeline_order r new
     \<and> keyed_by_uuid e (write_keys new)"
  unfolding handleAnalyze_try_def proc_defs
  by (auto split: all_splits dest!: persist_shape
      simp: run_shape_def pipeline_order_def keyed_by_uuid_Nil)

lemma try_shape_start:
  assumes "calls s = []" and "handleAnalyze_try e a s = (r, s')"
  shows "run_shape pipeline_order r (calls s')"
    and "keyed_by_uuid e (write_keys (calls s'))"
  using try_shape [OF assms(2)] assms(1) by auto

lemma length_write_keys: "length (write_keys cs) = count_list (map kind_of cs) KKvSet"
proof (induction cs)
  case Nil
  then show ?case by simp
next
  case (Cons c cs)
  then show ?case by (cases c) simp_all
qed

lemma nth_write_keys:
  "i < length cs \<Longrightarrow> cs ! i = KvSet k d r \<Longrightarrow> k \<in> set (write_keys cs)"
proof (induction cs arbitrary: i)
  case Nil
  then show ?case by simp
next
  case (Cons c cs)
  show ?case
  proof (cases i)
    case 0
    with Cons.prems show ?thesis by simp
  next
    case (Suc j)
    with Cons.prems have "k \<in> set (write_keys cs)"
      using Cons.IH [of j] by simp
    then show ?thesis by (cases c) simp_all
  qed
qed

text \<open>
  C5. In a run that starts with an empty log, the external calls are made in the
  order resume upload, conversion, image upload, first write, AI call, second
  write, navigation, and every call but the last one made has succeeded; every
  write goes to the \<^verbatim>\<open>resume:\<close> key of the one generated identifier. When no step
  fails, and only then, all seven calls are made and succeed: two uploads, two
  writes, one navigation. When the first failure is at step \<open>k\<close>, the calls of
  all earlier steps have been made and no call of a later step is made; for a
  checked failure the calls made are exactly those of the steps up to \<open>k\<close>. In
  particular a failure of extraction, parsing or validation (steps 6 to 9) leaves
  exactly the first five calls: no second write and no navigation.
\<close>

theorem calls_in_pipeline_order:
  assumes "calls s = []"
  shows "prefix (map kind_of (calls (snd (handleAnalyze e a s)))) pipeline_order
    \<and> list_all call_ok (butlast (calls (snd (handleAnalyze e a s))))
    \<and> keyed_by_uuid e (write_keys (calls (snd (handleAnalyze e a s))))
    \<and> ((pipeline_failure e a = None) =
         (map kind_of (calls (snd (handleAnalyze e a s))) = pipeline_order
          \<and> list_all call_ok (calls (snd (handleAnalyze e a s)))))
    \<and> (pipeline_failure e a = None \<longrightarrow>
         count_list (map kind_of (calls (snd (handleAnalyze e a s)))) KFsUpload = 2
         \<and> count_list (map kind_of (calls (snd (handleAnalyze e a s)))) KKvSet = 2
         \<and> count_list (map kind_of (calls (snd (handleAnalyze e a s)))) KNavigate = 1
         \<and> length (write_keys (calls (snd (handleAnalyze e a s)))) = 2)
    \<and> (pipeline_failure e a = Some (k, kind) \<longrightarrow>
         calls_through (k - 1) \<le> length (calls (snd (handleAnalyze e a s)))
         \<and> length (calls (snd (handleAnalyze e a s))) \<le> calls_through k
         \<and> (kind = Invalid \<longrightarrow>
              length (calls (snd (handleAnalyze e a s))) = calls_through k))"
proof (cases "handleAnalyze_try e a s")
  case (Pair r s')
  have c: "calls (snd (handleAnalyze e a s)) = calls s'"
    using Pair by (simp add: handleAnalyze_logs)
  have shape: "run_shape pipeline_order r (calls s')"
    and keys: "keyed_by_uuid e (write_keys (calls s'))"
    using try_shape_start [OF assms Pair] by simp_all
  have out: "run_outcome (pipeline_failure e a) r s'"
    and made: "calls_made_ok (pipeline_failure e a) (length (calls s'))"
    using try_outcome [OF Pair] assms by simp_all
  have ended: "(pipeline_failure e a = None) = (r = Inr ())"
  proof (cases "pipeline_failure e a")
    case None
    with out show ?thesis by simp
  next
    case (Some g)
    obtain j kd where "g = (j, kd)" by (cases g)
    with Some out show ?thesis by (cases kd) simp_all
  qed
  have counts: "count_list (map kind_of (calls s')) KFsUpload = 2
      \<and> count_list (map kind_of (calls s')) KKvSet = 2
      \<and> count_list (map kind_of (calls s')) KNavigate = 1
      \<and> length (write_keys (calls s')) = 2" if "r = Inr ()"
  proof -
    from shape that have "map kind_of (calls s') = pipeline_order"
      by (simp add: run_shape_def)
    then show ?thesis
      by (simp add: length_write_keys pipeline_order_def)
  qed
  have bounds: "calls_through (k - 1) \<le> length (calls s')
      \<and> length (calls s') \<le> calls_through k
      \<and> (kind = Invalid \<longrightarrow> length (calls s') = calls_through k)"
    if "pipeline_failure e a = Some (k, kind)"
    using made that by (cases kind) (auto simp: calls_through_def)
  from shape keys counts bounds ended show ?thesis
    unfolding c by (simp add: run_shape_def)
qed

theorem calls_in_pipeline_order_witness:
  "calls initial_state = []
   \<and> pipeline_failure sample_env sample_args = None
   \<and> map kind_of (calls (snd (handleAnalyze sample_env sample_args initial_state))) = pipeline_order
   \<and> length (write_keys (calls (snd (handleAnalyze sample_env sample_args initial_state)))) = 2
   \<and> pipeline_failure zero_score_env sample_args = Some (9, Invalid)
   \<and> length (calls (snd (handleAnalyze zero_score_env sample_args initial_state))) = 5
   \<and> pipeline_failure quota_env sample_args = Some (5, Thrown (ErrorObj ''quota exceeded''))
   \<and> length (calls (snd (handleAnalyze quota_env sample_args initial_state))) \<le> 5"
proof -
  have start: "calls initial_state = []"
    by (simp add: initial_state_def)
  have good: "pipeline_failure sample_env sample_args = None"
    by (simp add: failure_defs sample_defs extract_defs clean_feedbackText_def trim_def is_space_def)
  have invalid: "pipeline_failure zero_score_env sample_args = Some (9, Invalid)"
    by (simp add: failure_defs sample_defs extract_defs clean_feedbackText_def trim_def is_space_def)
  have thrown: "pipeline_failure quota_env sample_args = Some (5, Thrown (ErrorObj ''quota exceeded''))"
    by (simp add: failure_defs sample_defs)
  from start good invalid thrown
    calls_in_pipeline_order [OF start, of sample_env sample_args]
    calls_in_pipeline_order [OF start, of zero_score_env sample_args 9 Invalid]
    calls_in_pipeline_order [OF start, of quota_env sample_args 5 "Thrown (ErrorObj ''quota exceeded'')"]
  show ?thesis
    by (simp add: calls_through_def)
qed

subsection \<open>The pending record outlives a late failure\<close>

text \<open>
  C9. In a run that starts with an empty log, whenever the first failure is at one
  of the steps 5 to 9, that is, the instruction string, the AI call, the text
  extraction, the cleaning, the parsing or the validation fails, by a checked
  result or by an exception, then: the fourth call is the first write and it
  returned; its key is the \<^verbatim>\<open>resume:\<close> key of the generated identifier; its record
  has the empty string as \<^verbatim>\<open>feedback\<close>; it is the only write of the run; and the
  store is the store from before the run with exactly this entry put in. So the
  failure path deletes, rolls back and overwrites nothing.
\<close>

theorem pending_record_survives:
  assumes "calls s = []"
  shows "pipeline_failure e a = Some (k, kind) \<and> 5 \<le> k \<and> k \<le> 9 \<longrightarrow>
    (\<exists>u d v. generateUUID e = Returns u
       \<and> calls (snd (handleAnalyze e a s)) ! 3 = KvSet (''resume:'' @ u) d (Returns v)
       \<and> feedback d = JStr []
       \<and> write_keys (calls (snd (handleAnalyze e a s))) = [''resume:'' @ u]
       \<and> kv (snd (handleAnalyze e a s)) = (kv s)(''resume:'' @ u \<mapsto> d))"
proof
  assume late: "pipeline_failure e a = Some (k, kind) \<and> 5 \<le> k \<and> k \<le> 9"
  obtain r s' where run: "handleAnalyze_try e a s = (r, s')"
    by (cases "handleAnalyze_try e a s")
  have c: "calls (snd (handleAnalyze e a s)) = calls s'"
    and m: "kv (snd (handleAnalyze e a s)) = kv s'"
    using run by (simp_all add: handleAnalyze_logs)
  from try_outcome [OF run] assms late
  have stands: "write_stands 3 (calls s') (kv s) (kv s')"
    and one: "length (write_keys (calls s')) = 1"
    by simp_all
  from stands obtain key d v where w: "calls s' ! 3 = KvSet key d (Returns v)"
    and len: "3 < length (calls s')"
    and f: "feedback d = JStr []" and st: "kv s' = (kv s)(key \<mapsto> d)"
    by (auto simp: write_stands_def split: call.splits outcome.splits)
  from len w have mem: "key \<in> set (write_keys (calls s'))"
    by (rule nth_write_keys)
  from one obtain k0 where only: "write_keys (calls s') = [k0]"
    by (cases "write_keys (calls s')") auto
  with mem have keys: "write_keys (calls s') = [key]" by simp
  from try_shape_start(2) [OF assms run] mem
  obtain u where "generateUUID e = Returns u" and "key = ''resume:'' @ u"
    by (auto simp: keyed_by_uuid_def list_all_iff split: outcome.splits)
  with w f st keys show "\<exists>u d v. generateUUID e = Returns u
       \<and> calls (snd (handleAnalyze e a s)) ! 3 = KvSet (''resume:'' @ u) d (Returns v)
       \<and> feedback d = JStr []
       \<and> write_keys (calls (snd (handleAnalyze e a s))) = [''resume:'' @ u]
       \<and> kv (snd (handleAnalyze e a s)) = (kv s)(''resume:'' @ u \<mapsto> d)"
    unfolding c m by blast
qed

theorem pending_record_survives_witness:
  "calls initial_state = []
   \<and> pipeline_failure refusal_env sample_args = Some (8, Invalid) \<and> (5::nat) \<le> 8 \<and> (8::nat) \<le> 9
   \<and> (\<exists>u d v. generateUUID refusal_env = Returns u
        \<and> calls (snd (handleAnalyze refusal_env sample_args initial_state)) ! 3
            = KvSet (''resume:'' @ u) d (Returns v)
        \<and> feedback d = JStr []
        \<and> write_keys (calls (snd (handleAnalyze refusal_env sample_args initial_state)))
            = [''resume:'' @ u]
        \<and> kv (snd (handleAnalyze refusal_env sample_args initial_state))
            = (kv initial_state)(''resume:'' @ u \<mapsto> d))"
proof -
  have start: "calls initial_state = []"
    by (simp add: initial_state_def)
  have late: "pipeline_failure refusal_env sample_args = Some (8, Invalid)"
    by (simp add: failure_defs sample_defs extract_defs clean_feedbackText_def trim_def is_space_def)
  from start late pending_record_survives [OF start, of refusal_env sample_args 8 Invalid]
  show ?thesis by simp
qed

subsection \<open>Validation of the parsed feedback\<close>

lemma truthy_opt_prop: "truthy (opt_prop p k) \<Longrightarrow> get_prop p k' = Inr (opt_prop p k')"
  by (cases p) auto

text \<open>
  C2, as the code has it. For a parsed value that is not \<^verbatim>\<open>null\<close> (both property
  reads succeed), the handler rejects it exactly when \<^verbatim>\<open>overallScore\<close> or \<^verbatim>\<open>ATS\<close> is
  falsy, which covers an absent field and also a present one that is \<open>0\<close>, the
  empty string, \<^verbatim>\<open>false\<close> or \<^verbatim>\<open>null\<close>: it then clears the flag, reports the invalid
  format, and writes and navigates nothing. When both are truthy it is not
  rejected: the record with the feedback attached is written again and, if that
  write returns, the navigation follows.
\<close>

theorem validation_by_truthiness:
  assumes "get_prop parsedFeedback ''overallScore'' = Inr x"
    and "get_prop parsedFeedback ''ATS'' = Inr y"
  shows "(\<not> (truthy x \<and> truthy y) \<longrightarrow>
           validate_and_store e uuid data parsedFeedback s =
             (Inl Return, s\<lparr>isProcessing := False,
                statusText := ''Invalid feedback format from AI. Please try again.''\<rparr>))
    \<and> (truthy x \<and> truthy y \<longrightarrow>
         fst (validate_and_store e uuid data parsedFeedback s) \<noteq> Inl Return
         \<and> calls (snd (validate_and_store e uuid data parsedFeedback s)) =
             calls s @
             KvSet (''resume:'' @ uuid) (data\<lparr>feedback := parsedFeedback\<rparr>)
               (kv_set e 1 (''resume:'' @ uuid) (data\<lparr>feedback := parsedFeedback\<rparr>)) #
             (case kv_set e 1 (''resume:'' @ uuid) (data\<lparr>feedback := parsedFeedback\<rparr>) of
                Throws err \<Rightarrow> []
              | Returns v \<Rightarrow> [Navigate (''/resume/'' @ uuid) (navigate e (''/resume/'' @ uuid))]))"
  using assms
  unfolding validate_and_store_def proc_defs
  by (auto split: outcome.splits)

theorem validation_by_truthiness_witness:
  "get_prop zero_score_feedback ''overallScore'' = Inr (JNum 0)
   \<and> get_prop zero_score_feedback ''ATS'' = Inr (JObj [(''score'', JNum 0), (''tips'', JArr [])])
   \<and> \<not> (truthy (JNum 0) \<and> truthy (JObj [(''score'', JNum 0), (''tips'', JArr [])]))
   \<and> get_prop sample_feedback ''overallScore'' = Inr (JNum 82)
   \<and> get_prop sample_feedback ''ATS'' = Inr (JObj [(''score'', JNum 75), (''tips'', JArr [])])
   \<and> truthy (JNum 82) \<and> truthy (JObj [(''score'', JNum 75), (''tips'', JArr [])])
   \<and> fst (validate_and_store sample_env ''u1'' sample_data zero_score_feedback initial_state)
       = Inl Return
   \<and> fst (validate_and_store sample_env ''u1'' sample_data sample_feedback initial_state)
       \<noteq> Inl Return"
proof -
  have z: "get_prop zero_score_feedback ''overallScore'' = Inr (JNum 0)"
      "get_prop zero_score_feedback ''ATS'' = Inr (JObj [(''score'', JNum 0), (''tips'', JArr [])])"
    by (simp_all add: zero_score_feedback_def)
  have g: "get_prop sample_feedback ''overallScore'' = Inr (JNum 82)"
      "get_prop sample_feedback ''ATS'' = Inr (JObj [(''score'', JNum 75), (''tips'', JArr [])])"
    by (simp_all add: sample_feedback_def)
  from validation_by_truthiness [OF z, of sample_env "''u1''" sample_data initial_state]
    validation_by_truthiness [OF g, of sample_env "''u1''" sample_data initial_state]
    z g
  show ?thesis by simp
qed

text \<open>
  C2 as stated fails: on the object below both fields are present, and it is
  rejected, because \<^verbatim>\<open>overallScore\<close> is \<open>0\<close>.
\<close>

theorem validation_presence_counterexample:
  "has_field zero_score_feedback ''overallScore''
   \<and> has_field zero_score_feedback ''ATS''
   \<and> validate_and_store sample_env ''u1'' sample_data zero_score_feedback initial_state =
        (Inl Return, initial_state\<lparr>isProcessing := False,
           statusText := ''Invalid feedback format from AI. Please try again.''\<rparr>)"
  by (simp add: validate_and_store_def proc_defs zero_score_feedback_def)

subsection \<open>End to end\<close>

text \<open>
  C4, as the code has it. Given company name \<^verbatim>\<open>Acme\<close>, job title \<^verbatim>\<open>Engineer\<close>, job
  description \<^verbatim>\<open>Build things\<close>, uploads and a conversion that succeed, a generated
  identifier \<open>uuid\<close>, an instruction string that is produced, writes and a
  navigation that return, and a truthy AI response whose extracted text is a
  non-empty string that, once cleaned by line 92 (fence markers deleted, then
  trimmed), parses to a value on which \<^verbatim>\<open>overallScore\<close> and \<^verbatim>\<open>ATS\<close> are both truthy,
  the handler goes through every step: it makes the seven calls in order, leaves
  the record with the feedback attached in the store under the \<^verbatim>\<open>resume:\<close> key of
  \<open>uuid\<close>, and ends with the navigation to \<^verbatim>\<open>/resume/\<close> followed by \<open>uuid\<close>.
\<close>

theorem end_to_end_navigation:
  assumes args: "a = \<lparr>companyName_arg = ''Acme'', jobTitle_arg = ''Engineer'',
                      jobDescription_arg = ''Build things'', file_arg = file\<rparr>"
    and up1: "fs_upload e 0 [file] = Returns uploadedFile" "truthy uploadedFile"
    and conv: "convertPdfToImage e file = Returns ImageFile"
      "get_prop ImageFile ''file'' = Inr img" "truthy img"
    and up2: "fs_upload e 1 [img] = Returns uploadedImage" "truthy uploadedImage"
    and uuid: "generateUUID e = Returns uuid"
    and data: "data = \<lparr>id_field = uuid,
                        resumePath = opt_prop uploadedFile ''path'',
                        imagePath = opt_prop uploadedImage ''path'',
                        companyName = ''Acme'', jobTitle = ''Engineer'',
                        jobDescription = ''Build things'', feedback = JStr []\<rparr>"
    and kv1: "kv_set e 0 (''resume:'' @ uuid) data = Returns wrote"
    and instr: "prepareInstructions e ''Engineer'' ''Build things'' = Returns instructions"
    and ai: "ai_feedback e (opt_prop uploadedFile ''path'') instructions = Returns response"
      "truthy response"
    and extracted: "extract_feedbackText response = Inr (JStr t)" "t \<noteq> []"
    and parse: "JSON_parse e (clean_feedbackText t) = Some parsedFeedback"
    and fields: "truthy (opt_prop parsedFeedback ''overallScore'')"
      "truthy (opt_prop parsedFeedback ''ATS'')"
    and kv2: "kv_set e 1 (''resume:'' @ uuid) (data\<lparr>feedback := parsedFeedback\<rparr>) = Returns rewrote"
    and nav: "navigate e (''/resume/'' @ uuid) = Returns ()"
  shows "handleAnalyze e a s =
    (Inr (),
     s\<lparr>isProcessing := True,
       statusText := ''Analysis Complete! Redirecting...'',
       kv := (kv s)(''resume:'' @ uuid \<mapsto> data\<lparr>feedback := parsedFeedback\<rparr>),
       calls := calls s @
         [FsUpload [file] (Returns uploadedFile),
          ConvertPdfToImage file (Returns ImageFile),
          FsUpload [img] (Returns uploadedImage),
          KvSet (''resume:'' @ uuid) data (Returns wrote),
          AiFeedback (opt_prop uploadedFile ''path'') instructions (Returns response),
          KvSet (''resume:'' @ uuid) (data\<lparr>feedback := parsedFeedback\<rparr>) (Returns rewrote),
          Navigate (''/resume/'' @ uuid) (Returns ())],
       parsed := parsed s @ [clean_feedbackText t]\<rparr>)"
proof -
  have paths: "get_prop uploadedFile ''path'' = Inr (opt_prop uploadedFile ''path'')"
    "get_prop uploadedImage ''path'' = Inr (opt_prop uploadedImage ''path'')"
    using up1(2) up2(2) by (simp_all add: truthy_get_prop)
  have reads: "get_prop parsedFeedback ''overallScore'' = Inr (opt_prop parsedFeedback ''overallScore'')"
    "get_prop parsedFeedback ''ATS'' = Inr (opt_prop parsedFeedback ''ATS'')"
    using fields(1) by (simp_all add: truthy_opt_prop)
  have last_part: "validate_and_store e uuid data parsedFeedback s1 =
      (Inr (),
       s1\<lparr>calls := calls s1 @
            [KvSet (''resume:'' @ uuid) (data\<lparr>feedback := parsedFeedback\<rparr>) (Returns rewrote),
             Navigate (''/resume/'' @ uuid) (Returns ())],
          kv := (kv s1)(''resume:'' @ uuid \<mapsto> data\<lparr>feedback := parsedFeedback\<rparr>),
          statusText := ''Analysis Complete! Redirecting...''\<rparr>)" for s1
    using reads fields kv2 nav
    by (simp add: validate_and_store_def proc_defs)
  have response_part: "analyze_response e uuid data response s1 =
      (Inr (),
       s1\<lparr>parsed := parsed s1 @ [clean_feedbackText t],
          calls := calls s1 @
            [KvSet (''resume:'' @ uuid) (data\<lparr>feedback := parsedFeedback\<rparr>) (Returns rewrote),
             Navigate (''/resume/'' @ uuid) (Returns ())],
          kv := (kv s1)(''resume:'' @ uuid \<mapsto> data\<lparr>feedback := parsedFeedback\<rparr>),
          statusText := ''Analysis Complete! Redirecting...''\<rparr>)" for s1
    using ai(2) extracted parse
    by (simp add: analyze_response_def proc_defs last_part)
  have persist_part: "persist_and_analyze e a uploadedFile uploadedImage s1 =
      (Inr (),
       s1\<lparr>parsed := parsed s1 @ [clean_feedbackText t],
          calls := calls s1 @
            [KvSet (''resume:'' @ uuid) data (Returns wrote),
             AiFeedback (opt_prop uploadedFile ''path'') instructions (Returns response),
             KvSet (''resume:'' @ uuid) (data\<lparr>feedback := parsedFeedback\<rparr>) (Returns rewrote),
             Navigate (''/resume/'' @ uuid) (Returns ())],
          kv := (kv s1)(''resume:'' @ uuid \<mapsto> data\<lparr>feedback := parsedFeedback\<rparr>),
          statusText := ''Analysis Complete! Redirecting...''\<rparr>)" for s1
    using uuid paths kv1 [unfolded data] instr ai(1)
    by (simp add: persist_and_analyze_def proc_defs args response_part [unfolded data] data)
  have "handleAnalyze_try e a s =
    (Inr (),
     s\<lparr>isProcessing := True,
       statusText := ''Analysis Complete! Redirecting...'',
       kv := (kv s)(''resume:'' @ uuid \<mapsto> data\<lparr>feedback := parsedFeedback\<rparr>),
       calls := calls s @
         [FsUpload [file] (Returns uploadedFile),
          ConvertPdfToImage file (Returns ImageFile),
          FsUpload [img] (Returns uploadedImage),
          KvSet (''resume:'' @ uuid) data (Returns wrote),
          AiFeedback (opt_prop uploadedFile ''path'') instructions (Returns response),
          KvSet (''resume:'' @ uuid) (data\<lparr>feedback := parsedFeedback\<rparr>) (Returns rewrote),
          Navigate (''/resume/'' @ uuid) (Returns ())],
       parsed := parsed s @ [clean_feedbackText t]\<rparr>)"
    using up1 conv up2
    by (simp add: handleAnalyze_try_def proc_defs args persist_part [unfolded args])
  then show ?thesis
    by (simp add: handleAnalyze_def catchP_def)
qed

theorem end_to_end_navigation_witness:
  "handleAnalyze sample_env sample_args initial_state =
    (Inr (),
     initial_state\<lparr>isProcessing := True,
       statusText := ''Analysis Complete! Redirecting...'',
       kv := (kv initial_state)(''resume:'' @ ''u1'' \<mapsto> sample_data\<lparr>feedback := sample_feedback\<rparr>),
       calls := calls initial_state @
         [FsUpload [JObj [(''name'', JStr ''resume.pdf'')]] (Returns (JObj [(''path'', JStr ''/resume.pdf'')])),
          ConvertPdfToImage (JObj [(''name'', JStr ''resume.pdf'')])
            (Returns (JObj [(''imageUrl'', JStr ''blob:1''), (''file'', JObj [(''name'', JStr ''resume.png'')])])),
          FsUpload [JObj [(''name'', JStr ''resume.png'')]] (Returns (JObj [(''path'', JStr ''/resume.png'')])),
          KvSet (''resume:'' @ ''u1'') sample_data (Returns (JBool True)),
          AiFeedback (opt_prop (JObj [(''path'', JStr ''/resume.pdf'')]) ''path'') ''Engineer: Build things''
            (Returns sample_response),
          KvSet (''resume:'' @ ''u1'') (sample_data\<lparr>feedback := sample_feedback\<rparr>) (Returns (JBool True)),
          Navigate (''/resume/'' @ ''u1'') (Returns ())],
       parsed := parsed initial_state
         @ [clean_feedbackText (''```json'' @ [CHR 0x0A] @ sample_text @ [CHR 0x0A] @ ''```'')]\<rparr>)"
proof (rule end_to_end_navigation [where wrote = "JBool True" and rewrote = "JBool True"
      and img = "JObj [(''name'', JStr ''resume.png'')]"])
  show "sample_args = \<lparr>companyName_arg = ''Acme'', jobTitle_arg = ''Engineer'',
      jobDescription_arg = ''Build things'', file_arg = JObj [(''name'', JStr ''resume.pdf'')]\<rparr>"
    by (simp add: sample_args_def)
  show "sample_data = \<lparr>id_field = ''u1'',
      resumePath = opt_prop (JObj [(''path'', JStr ''/resume.pdf'')]) ''path'',
      imagePath = opt_prop (JObj [(''path'', JStr ''/resume.png'')]) ''path'',
      companyName = ''Acme'', jobTitle = ''Engineer'',
      jobDescription = ''Build things'', feedback = JStr []\<rparr>"
    by (simp add: sample_data_def)
  show "JSON_parse sample_env
      (clean_feedbackText (''```json'' @ [CHR 0x0A] @ sample_text @ [CHR 0x0A] @ ''```''))
      = Some sample_feedback"
    by (simp add: sample_env_def sample_text_def clean_feedbackText_def trim_def is_space_def)
  show "extract_feedbackText sample_response
      = Inr (JStr (''```json'' @ [CHR 0x0A] @ sample_text @ [CHR 0x0A] @ ''```''))"
    by (simp add: sample_response_def extract_defs)
qed (simp_all add: sample_env_def sample_response_def sample_feedback_def)

text \<open>
  C4 as stated fails: in the session below every collaborator succeeds and the AI
  answers with JSON that parses to an object containing both \<^verbatim>\<open>overallScore\<close> and
  \<^verbatim>\<open>ATS\<close>, and the handler stops with the invalid-format message and never
  navigates, because \<^verbatim>\<open>overallScore\<close> is \<open>0\<close>.
\<close>

theorem end_to_end_counterexample:
  "JSON_parse zero_score_env zero_score_text = Some zero_score_feedback
   \<and> has_field zero_score_feedback ''overallScore''
   \<and> has_field zero_score_feedback ''ATS''
   \<and> parsed (snd (handleAnalyze zero_score_env sample_args initial_state)) = [zero_score_text]
   \<and> statusText (snd (handleAnalyze zero_score_env sample_args initial_state))
     = ''Invalid feedback format from AI. Please try again.''
   \<and> map kind_of (calls (snd (handleAnalyze zero_score_env sample_args initial_state)))
     = [KFsUpload, KConvert, KFsUpload, KKvSet, KAiFeedback]"
  by (simp add: handler_defs proc_defs sample_defs extract_defs clean_feedbackText_def
      trim_def is_space_def)


end
